theory Spec2Isabelle
  imports Main "HOL-Library.Sublist" "HOL-Library.Multiset"
begin

section \<open>Omnivore RSS export: a shallow embedding of \<^verbatim>\<open>omnivore_rss_export.py\<close>\<close>

text \<open>
  The script is a linear pipeline: read three environment variables, POST one GraphQL
  query, map the JSON answer to \<^verbatim>\<open>Subscription\<close> records, optionally drop the feeds that
  were never fetched, print a report and write an OPML file. Every Python function is a
  HOL function here. Exceptions are values (\<open>Inl\<close> of a sum), console output, the network
  call and the file write are entries of an event list, and what the standard library
  computes (ISO-8601 parsing, \<^verbatim>\<open>json.dumps\<close>, \<^verbatim>\<open>str\<close>, \<^verbatim>\<open>strftime\<close>, the clock, the network)
  is a field of a \<open>runtime\<close> record that every function receives.
\<close>

subsection \<open>Values\<close>

text \<open>
  A \<^verbatim>\<open>datetime\<close>. \<open>Naive w\<close> has no time zone: \<open>w\<close> is the wall-clock time in microseconds
  since 0001-01-01T00:00:00. \<open>Aware w off\<close> carries the UTC offset \<open>off\<close> in microseconds,
  so the instant is \<open>w - off\<close>. \<^verbatim>\<open>datetime.fromisoformat\<close> returns a naive value for a string
  without an offset and an aware one (with a fixed offset) otherwise.
\<close>

datatype datetime = Naive int | Aware int int

text \<open>
  What \<^verbatim>\<open>response.json()\<close> returns. An object is the list of its members in document
  order; the parser keeps one member per key. Numbers are the integers (the only
  numeric field of the query, \<^verbatim>\<open>count\<close>, is an integer).
\<close>

datatype json =
    JNull
  | JBool bool
  | JNum int
  | JStr string
  | JArr "json list"
  | JObj "(string \<times> json) list"

text \<open>
  The part of a \<^verbatim>\<open>requests.Response\<close> the script reads. \<open>json_result\<close> is the value of
  \<^verbatim>\<open>response.json()\<close>, \<open>None\<close> when the body is not JSON (the call raises then);
  \<open>response_headers\<close> is the text \<^verbatim>\<open>print\<close> shows for \<^verbatim>\<open>response.headers\<close>.
\<close>

record response =
  status_code :: int
  response_headers :: string
  response_text :: string
  json_result :: "json option"

text \<open>
  The exceptions of the script. \<open>HTTPError\<close>, \<open>RequestFault\<close> (a network-level fault of
  \<^verbatim>\<open>requests.post\<close>: connection, timeout, invalid URL or header) and \<open>JSONDecodeError\<close> are
  the subclasses of \<^verbatim>\<open>requests.exceptions.RequestException\<close>; \<open>HTTPError\<close> carries the
  response, as \<^verbatim>\<open>e.response\<close> does. \<open>IllTyped f\<close> is not a Python exception: it marks a
  response item whose field \<open>f\<close> does not have the type the dataclass declares, where
  Python would store the value unchecked; the record type below follows the dataclass,
  so the model stops there.
\<close>

datatype error =
    ValueError string
  | Exception string
  | HTTPError response
  | RequestFault string
  | JSONDecodeError
  | KeyError string
  | TypeError
  | AttributeError
  | IllTyped string

fun is_request_exception :: "error \<Rightarrow> bool" where
  "is_request_exception (HTTPError r) = True"
| "is_request_exception (RequestFault m) = True"
| "is_request_exception JSONDecodeError = True"
| "is_request_exception e = False"

text \<open>The dataclass \<^verbatim>\<open>Subscription\<close> (the field \<^verbatim>\<open>count\<close> is \<open>count'\<close> here).\<close>

record subscription =
  name :: string
  url :: "string option"
  folder :: "string option"
  created_at :: "datetime option"
  last_fetched_at :: "datetime option"
  description :: "string option"
  newsletter_email :: "string option"
  refreshed_at :: "datetime option"
  count' :: "int option"
  icon :: "string option"
  is_private :: "bool option"
  auto_add_to_library :: "bool option"
  fetch_content :: "bool option"
  failed_at :: "datetime option"

text \<open>What the process does to the outside world, in order.\<close>

datatype event =
    Print string
  | Post string "(string \<times> string) list" string
  | WriteFile string string

text \<open>
  The library and the environment of one run. \<open>post url headers query\<close> is
  \<^verbatim>\<open>requests.post(url, headers=headers, json={"query": query})\<close>: a response, or the
  message of a network-level fault. \<open>fromisoformat\<close> is \<open>None\<close> where Python raises
  \<^verbatim>\<open>ValueError\<close>. \<open>dumps\<close> is \<^verbatim>\<open>json.dumps(_, indent=2)\<close>, \<open>str_json\<close> and \<open>str_exc\<close> are \<^verbatim>\<open>str\<close>
  on a parsed JSON value and on an exception, \<open>strftime d fmt\<close> is \<^verbatim>\<open>d.strftime(fmt)\<close>, and
  \<open>now k\<close> is the \<open>k\<close>-th reading of \<^verbatim>\<open>datetime.now()\<close>.
\<close>

record runtime =
  post :: "string \<Rightarrow> (string \<times> string) list \<Rightarrow> string \<Rightarrow> string + response"
  fromisoformat :: "string \<Rightarrow> datetime option"
  dumps :: "json \<Rightarrow> string"
  str_json :: "json \<Rightarrow> string"
  str_exc :: "error \<Rightarrow> string"
  strftime :: "datetime \<Rightarrow> string \<Rightarrow> string"
  now :: "nat \<Rightarrow> datetime"

definition bind_err :: "error + 'a \<Rightarrow> ('a \<Rightarrow> error + 'b) \<Rightarrow> error + 'b" where
  "bind_err m f = (case m of Inl e \<Rightarrow> Inl e | Inr x \<Rightarrow> f x)"

subsection \<open>Python built-ins\<close>

text \<open>Truthiness of an \<^verbatim>\<open>Optional[str]\<close>: \<^verbatim>\<open>None\<close> and the empty string are false.\<close>

fun truthy_str :: "string option \<Rightarrow> bool" where
  "truthy_str None = False"
| "truthy_str (Some s) = (s \<noteq> [])"

fun truthy :: "json \<Rightarrow> bool" where
  "truthy JNull = False"
| "truthy (JBool b) = b"
| "truthy (JNum n) = (n \<noteq> 0)"
| "truthy (JStr s) = (s \<noteq> [])"
| "truthy (JArr xs) = (xs \<noteq> [])"
| "truthy (JObj kvs) = (kvs \<noteq> [])"

text \<open>\<^verbatim>\<open>k in v\<close> for a string \<open>k\<close>: a key of a dict, an element of a list, a substring of a string.\<close>

fun py_in :: "string \<Rightarrow> json \<Rightarrow> error + bool" where
  "py_in k (JObj kvs) = Inr (k \<in> set (map fst kvs))"
| "py_in k (JArr xs) = Inr (JStr k \<in> set xs)"
| "py_in k (JStr s) = Inr (sublist k s)"
| "py_in k v = Inl TypeError"

text \<open>\<^verbatim>\<open>v[k]\<close> for a string \<open>k\<close>: only a dict can be indexed by a string.\<close>

fun py_getitem :: "json \<Rightarrow> string \<Rightarrow> error + json" where
  "py_getitem (JObj kvs) k = (case map_of kvs k of None \<Rightarrow> Inl (KeyError k) | Some v \<Rightarrow> Inr v)"
| "py_getitem v k = Inl TypeError"

text \<open>\<^verbatim>\<open>v.get(k)\<close>: only a dict has the method.\<close>

fun py_get :: "json \<Rightarrow> string \<Rightarrow> error + json option" where
  "py_get (JObj kvs) k = Inr (map_of kvs k)"
| "py_get v k = Inl AttributeError"

text \<open>\<^verbatim>\<open>for sub in v\<close>: the elements of a list, the keys of a dict, the characters of a string.\<close>

fun py_iter :: "json \<Rightarrow> error + json list" where
  "py_iter (JArr xs) = Inr xs"
| "py_iter (JObj kvs) = Inr (map (\<lambda>kv. JStr (fst kv)) kvs)"
| "py_iter (JStr s) = Inr (map (\<lambda>c. JStr [c]) s)"
| "py_iter v = Inl TypeError"

text \<open>\<^verbatim>\<open>s.replace("Z", "+00:00")\<close>: every \<^verbatim>\<open>Z\<close> of the string is replaced.\<close>

definition replace_Z :: "string \<Rightarrow> string" where
  "replace_Z s = concat (map (\<lambda>c. if c = CHR ''Z'' then ''+00:00'' else [c]) s)"

text \<open>\<^verbatim>\<open>sep.join(xs)\<close>.\<close>

fun join :: "string \<Rightarrow> string list \<Rightarrow> string" where
  "join sep [] = []"
| "join sep [x] = x"
| "join sep (x # y # ys) = x @ sep @ join sep (y # ys)"

text \<open>\<^verbatim>\<open>str\<close> of an integer and of a boolean.\<close>

definition digit :: "nat \<Rightarrow> char" where
  "digit d = ''0123456789'' ! d"

function show_nat :: "nat \<Rightarrow> string" where
  "show_nat n = (if n < 10 then [digit n] else show_nat (n div 10) @ [digit (n mod 10)])"
  by pat_completeness auto
termination
  by (relation "measure id") auto

definition show_int :: "int \<Rightarrow> string" where
  "show_int i = (if i < 0 then ''-'' @ show_nat (nat (- i)) else show_nat (nat i))"

definition show_bool :: "bool \<Rightarrow> string" where
  "show_bool b = (if b then ''True'' else ''False'')"

text \<open>
  \<^verbatim>\<open>a - b\<close> on two datetimes, as the number of microseconds of the \<^verbatim>\<open>timedelta\<close>. Two naive
  values subtract their wall clocks, two aware values their instants, and a naive with
  an aware value raises \<^verbatim>\<open>TypeError\<close>.
\<close>

fun dt_sub :: "datetime \<Rightarrow> datetime \<Rightarrow> error + int" where
  "dt_sub (Naive a) (Naive b) = Inr (a - b)"
| "dt_sub (Aware a oa) (Aware b ob) = Inr ((a - oa) - (b - ob))"
| "dt_sub (Naive a) (Aware b ob) = Inl TypeError"
| "dt_sub (Aware a oa) (Naive b) = Inl TypeError"

text \<open>\<^verbatim>\<open>a == b\<close> on two datetimes: a naive value never equals an aware one.\<close>

fun dt_eq :: "datetime \<Rightarrow> datetime \<Rightarrow> bool" where
  "dt_eq (Naive a) (Naive b) = (a = b)"
| "dt_eq (Aware a oa) (Aware b ob) = (a - oa = b - ob)"
| "dt_eq (Naive a) (Aware b ob) = False"
| "dt_eq (Aware a oa) (Naive b) = False"

subsection \<open>\<^verbatim>\<open>OmnivoreClient.__init__\<close>\<close>

record client =
  token :: string
  base_url :: string
  headers :: "(string \<times> string) list"

definition OmnivoreClient :: "string \<Rightarrow> string \<Rightarrow> string \<Rightarrow> client" where
  "OmnivoreClient tok host graphql_path =
     \<lparr> token = tok,
       base_url = ''https://'' @ host @ graphql_path,
       headers = [(''Authorization'', tok), (''Content-Type'', ''application/json'')] \<rparr>"

subsection \<open>\<^verbatim>\<open>OmnivoreClient.get_subscriptions\<close>\<close>

definition query :: string where
  "query =
     ''\<newline>'' @
     ''        query GetSubscriptions {\<newline>'' @
     ''            subscriptions {\<newline>'' @
     ''                ... on SubscriptionsSuccess {\<newline>'' @
     ''                    subscriptions {\<newline>'' @
     ''                        name\<newline>'' @
     ''                        url\<newline>'' @
     ''                        folder\<newline>'' @
     ''                        createdAt\<newline>'' @
     ''                        lastFetchedAt\<newline>'' @
     ''                        description\<newline>'' @
     ''                        newsletterEmail\<newline>'' @
     ''                        refreshedAt\<newline>'' @
     ''                        count\<newline>'' @
     ''                        icon\<newline>'' @
     ''                        isPrivate\<newline>'' @
     ''                        autoAddToLibrary\<newline>'' @
     ''                        fetchContent\<newline>'' @
     ''                        failedAt\<newline>'' @
     ''                    }\<newline>'' @
     ''                }\<newline>'' @
     ''            }\<newline>'' @
     ''        }\<newline>'' @
     ''        ''"

text \<open>
  One timestamp of a response item (lines 96 to 99):
  \<^verbatim>\<open>datetime.fromisoformat(sub[k].replace("Z", "+00:00")) if sub.get(k) else None\<close>.
  \<^verbatim>\<open>sub.get\<close> raises \<^verbatim>\<open>AttributeError\<close> when the item is not a dict; a missing or falsy value
  gives \<^verbatim>\<open>None\<close>; a truthy value that is not a string has no \<^verbatim>\<open>replace\<close>.
\<close>

definition parse_timestamp :: "runtime \<Rightarrow> json \<Rightarrow> string \<Rightarrow> error + datetime option" where
  "parse_timestamp rt sub k =
     bind_err (py_get sub k) (\<lambda>got.
       case got of
         None \<Rightarrow> Inr None
       | Some v \<Rightarrow>
           if \<not> truthy v then Inr None
           else (case v of
                   JStr s \<Rightarrow>
                     (case fromisoformat rt (replace_Z s) of
                        None \<Rightarrow> Inl (ValueError (replace_Z s))
                      | Some d \<Rightarrow> Inr (Some d))
                 | _ \<Rightarrow> Inl AttributeError))"

text \<open>
  The scalar fields are copied as they are. \<^verbatim>\<open>null\<close> and a missing key both give \<^verbatim>\<open>None\<close>;
  a value of another type than the dataclass declares is \<open>IllTyped\<close>.
\<close>

fun as_str :: "string \<Rightarrow> json option \<Rightarrow> error + string option" where
  "as_str f None = Inr None"
| "as_str f (Some JNull) = Inr None"
| "as_str f (Some (JStr s)) = Inr (Some s)"
| "as_str f (Some v) = Inl (IllTyped f)"

fun as_int :: "string \<Rightarrow> json option \<Rightarrow> error + int option" where
  "as_int f None = Inr None"
| "as_int f (Some JNull) = Inr None"
| "as_int f (Some (JNum n)) = Inr (Some n)"
| "as_int f (Some v) = Inl (IllTyped f)"

fun as_bool :: "string \<Rightarrow> json option \<Rightarrow> error + bool option" where
  "as_bool f None = Inr None"
| "as_bool f (Some JNull) = Inr None"
| "as_bool f (Some (JBool b)) = Inr (Some b)"
| "as_bool f (Some v) = Inl (IllTyped f)"

definition get_str :: "json \<Rightarrow> string \<Rightarrow> error + string option" where
  "get_str sub k = bind_err (py_get sub k) (as_str k)"

definition get_int :: "json \<Rightarrow> string \<Rightarrow> error + int option" where
  "get_int sub k = bind_err (py_get sub k) (as_int k)"

definition get_bool :: "json \<Rightarrow> string \<Rightarrow> error + bool option" where
  "get_bool sub k = bind_err (py_get sub k) (as_bool k)"

text \<open>\<^verbatim>\<open>sub["name"]\<close>: the key must be there, and the dataclass wants a string.\<close>

definition get_name :: "json \<Rightarrow> error + string" where
  "get_name sub =
     bind_err (py_getitem sub ''name'') (\<lambda>v.
       case v of JStr s \<Rightarrow> Inr s | _ \<Rightarrow> Inl (IllTyped ''name''))"

text \<open>The body of the loop of lines 95 to 117, for one item.\<close>

definition to_subscription :: "runtime \<Rightarrow> json \<Rightarrow> error + subscription" where
  "to_subscription rt sub =
     bind_err (parse_timestamp rt sub ''createdAt'') (\<lambda>created.
     bind_err (parse_timestamp rt sub ''lastFetchedAt'') (\<lambda>last_fetched.
     bind_err (parse_timestamp rt sub ''refreshedAt'') (\<lambda>refreshed.
     bind_err (parse_timestamp rt sub ''failedAt'') (\<lambda>failed.
     bind_err (get_name sub) (\<lambda>n.
     bind_err (get_str sub ''url'') (\<lambda>u.
     bind_err (get_str sub ''folder'') (\<lambda>fo.
     bind_err (get_str sub ''description'') (\<lambda>de.
     bind_err (get_str sub ''newsletterEmail'') (\<lambda>ne.
     bind_err (get_int sub ''count'') (\<lambda>co.
     bind_err (get_str sub ''icon'') (\<lambda>ic.
     bind_err (get_bool sub ''isPrivate'') (\<lambda>ip.
     bind_err (get_bool sub ''autoAddToLibrary'') (\<lambda>aa.
     bind_err (get_bool sub ''fetchContent'') (\<lambda>fc.
       Inr \<lparr> name = n, url = u, folder = fo, created_at = created,
             last_fetched_at = last_fetched, description = de, newsletter_email = ne,
             refreshed_at = refreshed, count' = co, icon = ic, is_private = ip,
             auto_add_to_library = aa, fetch_content = fc,
             failed_at = failed \<rparr>))))))))))))))"

fun map_subscriptions :: "runtime \<Rightarrow> json list \<Rightarrow> error + subscription list" where
  "map_subscriptions rt [] = Inr []"
| "map_subscriptions rt (sub # rest) =
     bind_err (to_subscription rt sub) (\<lambda>s.
     bind_err (map_subscriptions rt rest) (\<lambda>ss. Inr (s # ss)))"

text \<open>
  \<^verbatim>\<open>response.raise_for_status()\<close> of the requests library: it raises \<^verbatim>\<open>HTTPError\<close> for a
  status from 400 to 599 and returns for every other status.
\<close>

definition raise_for_status :: "response \<Rightarrow> error + unit" where
  "raise_for_status r =
     (if 400 \<le> status_code r \<and> status_code r < 600 then Inl (HTTPError r) else Inr ())"

text \<open>Lines 83 to 119: the checks on the JSON body, in the order of the source.\<close>

definition read_body :: "runtime \<Rightarrow> json \<Rightarrow> error + subscription list" where
  "read_body rt data =
     bind_err (py_in ''errors'' data) (\<lambda>has_errors.
       if has_errors then
         bind_err (py_getitem data ''errors'') (\<lambda>errs.
           Inl (Exception (''GraphQL errors: '' @ dumps rt errs)))
       else
         bind_err (py_getitem data ''data'') (\<lambda>d.
         bind_err (py_getitem d ''subscriptions'') (\<lambda>result.
         bind_err (py_in ''errorCodes'' result) (\<lambda>has_codes.
           if has_codes then
             bind_err (py_getitem result ''errorCodes'') (\<lambda>codes.
               Inl (Exception (''Subscription error: '' @ str_json rt codes)))
           else
             bind_err (py_getitem result ''subscriptions'') (\<lambda>items.
             bind_err (py_iter items) (map_subscriptions rt))))))"

text \<open>Lines 76 to 79: the debug output, printed before the status is checked.\<close>

definition debug_prints :: "response \<Rightarrow> event list" where
  "debug_prints r =
     Print (''Status Code: '' @ show_int (status_code r)) #
     (if status_code r \<noteq> 200
      then [Print (''Response Headers: '' @ response_headers r),
            Print (''Response Text: '' @ take 500 (response_text r) @ ''...'')]
      else [])"

definition handle_response :: "runtime \<Rightarrow> response \<Rightarrow> error + subscription list" where
  "handle_response rt r =
     bind_err (raise_for_status r) (\<lambda>_.
       case json_result r of
         None \<Rightarrow> Inl JSONDecodeError
       | Some data \<Rightarrow> read_body rt data)"

text \<open>
  Lines 121 to 125: the handler of \<^verbatim>\<open>RequestException\<close>. It prints the exception, and the
  whole response text when the exception carries a response, and raises again.
\<close>

fun request_failed :: "runtime \<Rightarrow> error \<Rightarrow> event list" where
  "request_failed rt (HTTPError r) =
     [Print (''Request failed: '' @ str_exc rt (HTTPError r)),
      Print (''Error response: '' @ response_text r)]"
| "request_failed rt e =
     (if is_request_exception e then [Print (''Request failed: '' @ str_exc rt e)] else [])"

definition get_subscriptions :: "runtime \<Rightarrow> client \<Rightarrow> event list \<times> (error + subscription list)" where
  "get_subscriptions rt self =
     (case post rt (base_url self) (headers self) query of
        Inl fault \<Rightarrow>
          (Post (base_url self) (headers self) query # request_failed rt (RequestFault fault),
           Inl (RequestFault fault))
      | Inr r \<Rightarrow>
          (case handle_response rt r of
             Inl e \<Rightarrow>
               (Post (base_url self) (headers self) query # debug_prints r @ request_failed rt e,
                Inl e)
           | Inr subs \<Rightarrow>
               (Post (base_url self) (headers self) query # debug_prints r, Inr subs)))"

subsection \<open>\<^verbatim>\<open>OmnivoreClient.export_to_opml\<close>\<close>

text \<open>Line 145: \<^verbatim>\<open>folder = sub.folder or "Uncategorized"\<close>.\<close>

definition folder_of :: "subscription \<Rightarrow> string" where
  "folder_of sub = (if truthy_str (folder sub) then the (folder sub) else ''Uncategorized'')"

text \<open>
  Lines 146 to 148. The dict \<^verbatim>\<open>folders\<close> is the list of its items in insertion order: a new
  key is added at the end with an empty list, then the subscription is appended to the
  list of its key.
\<close>

definition add_to_folder ::
  "(string \<times> subscription list) list \<Rightarrow> subscription \<Rightarrow> (string \<times> subscription list) list" where
  "add_to_folder folders sub =
     (let fo = folder_of sub;
          folders1 = (if fo \<notin> set (map fst folders) then folders @ [(fo, [])] else folders)
      in map (\<lambda>(k, subs). if k = fo then (k, subs @ [sub]) else (k, subs)) folders1)"

definition group_by_folder :: "subscription list \<Rightarrow> (string \<times> subscription list) list" where
  "group_by_folder subscriptions = foldl add_to_folder [] subscriptions"

text \<open>Lines 156 and 157: one subscription of a folder, added to the document so far.\<close>

definition leaf_outline :: "subscription \<Rightarrow> string" where
  \<open>leaf_outline sub =
     ''      <outline type="rss" text="'' @ name sub @ ''" title="'' @ name sub @
     ''" xmlUrl="'' @ the (url sub) @ ''"/>\<newline>''\<close>

definition write_sub :: "string \<Rightarrow> subscription \<Rightarrow> string" where
  "write_sub opml sub = (if truthy_str (url sub) then opml @ leaf_outline sub else opml)"

definition folder_open :: "string \<Rightarrow> string" where
  \<open>folder_open fo = ''    <outline text="'' @ fo @ ''" title="'' @ fo @ ''">\<newline>''\<close>

definition folder_close :: string where
  "folder_close = ''    </outline>\<newline>''"

text \<open>Lines 152 to 160: one folder with its subscriptions.\<close>

definition write_folder :: "string \<Rightarrow> string \<times> subscription list \<Rightarrow> string" where
  "write_folder opml item =
     (case item of (fo, subs) \<Rightarrow>
        (let opml1 = (if fo \<noteq> ''Uncategorized'' then opml @ folder_open fo else opml);
             opml2 = foldl write_sub opml1 subs
         in if fo \<noteq> ''Uncategorized'' then opml2 @ folder_close else opml2))"

definition opml_head :: "runtime \<Rightarrow> string" where
  \<open>opml_head rt =
     ''<?xml version="1.0" encoding="UTF-8"?>\<newline>'' @
     ''<opml version="2.0">\<newline>'' @
     ''  <head>\<newline>'' @
     ''    <title>Omnivore RSS Subscriptions Export - '' @ strftime rt (now rt 1) ''%Y-%m-%d'' @
     ''</title>\<newline>'' @
     ''  </head>\<newline>'' @
     ''  <body>\<newline>''\<close>

definition opml_tail :: string where
  "opml_tail = ''  </body>\<newline>'' @ ''</opml>''"

text \<open>The string \<^verbatim>\<open>opml\<close> when the file is written (lines 135 to 163).\<close>

definition opml_document :: "runtime \<Rightarrow> subscription list \<Rightarrow> string" where
  "opml_document rt subscriptions =
     foldl write_folder (opml_head rt) (group_by_folder subscriptions) @ opml_tail"

definition export_to_opml :: "runtime \<Rightarrow> subscription list \<Rightarrow> string \<Rightarrow> event list" where
  "export_to_opml rt subscriptions filename = [WriteFile filename (opml_document rt subscriptions)]"

subsection \<open>\<^verbatim>\<open>main\<close>\<close>

text \<open>
  Lines 173 to 187. \<open>env\<close> is the process environment after \<^verbatim>\<open>load_dotenv()\<close>; \<^verbatim>\<open>os.getenv\<close>
  is \<open>None\<close> for a variable that is not set. \<^verbatim>\<open>not v\<close> holds for \<open>None\<close> and for the empty
  string.
\<close>

definition missing_vars :: "(string \<Rightarrow> string option) \<Rightarrow> string list" where
  "missing_vars env =
     (if \<not> truthy_str (env ''OMNIVORE_API_TOKEN'') then [''OMNIVORE_API_TOKEN''] else []) @
     (if \<not> truthy_str (env ''OMNIVORE_HOST'') then [''OMNIVORE_HOST''] else []) @
     (if \<not> truthy_str (env ''OMNIVORE_GRAPH_QL_PATH'') then [''OMNIVORE_GRAPH_QL_PATH''] else [])"

text \<open>
  The condition of the comprehension of lines 203 to 207, before the \<^verbatim>\<open>not\<close>:
  \<^verbatim>\<open>sub.last_fetched_at is None or (sub.created_at and sub.last_fetched_at and
  abs((sub.last_fetched_at - sub.created_at).total_seconds()) < 60)\<close>.
  A datetime is always truthy. \<^verbatim>\<open>total_seconds()\<close> is the correctly rounded quotient of the
  microseconds by \<open>10^6\<close>; 60 is a float, rounding is monotone and no quotient of an
  integer below \<open>60 * 10^6\<close> rounds up to 60, so the comparison of the floats is the
  comparison of the integers written here.
\<close>

definition never_fetched :: "subscription \<Rightarrow> error + bool" where
  "never_fetched sub =
     (case last_fetched_at sub of
        None \<Rightarrow> Inr True
      | Some fetched \<Rightarrow>
          (case created_at sub of
             None \<Rightarrow> Inr False
           | Some created \<Rightarrow>
               bind_err (dt_sub fetched created) (\<lambda>td. Inr (\<bar>td\<bar> < 60 * 1000000))))"

text \<open>The comprehension: the subscriptions in order, the first exception ends it.\<close>

fun exclude_unfetched :: "subscription list \<Rightarrow> error + subscription list" where
  "exclude_unfetched [] = Inr []"
| "exclude_unfetched (sub # subs) =
     bind_err (never_fetched sub) (\<lambda>drop.
     bind_err (exclude_unfetched subs) (\<lambda>kept.
       Inr (if \<not> drop then sub # kept else kept)))"

text \<open>Lines 201 to 210: the filter stage with its message; \<open>flag\<close> is \<^verbatim>\<open>args.exclude_unfetched\<close>.\<close>

definition filter_subscriptions :: "bool \<Rightarrow> subscription list \<Rightarrow> error + subscription list" where
  "filter_subscriptions flag subscriptions =
     (if flag then exclude_unfetched subscriptions else Inr subscriptions)"

definition filter_prints :: "bool \<Rightarrow> subscription list \<Rightarrow> subscription list \<Rightarrow> event list" where
  "filter_prints flag original kept =
     (if flag \<and> length original - length kept > 0
      then [Print (''\<newline>Filtered out '' @ show_nat (length original - length kept) @
                   '' never-fetched subscriptions'')]
      else [])"

text \<open>Lines 215 to 241: the report of one subscription.\<close>

definition print_str :: "string \<Rightarrow> string option \<Rightarrow> event list" where
  "print_str label v = (if truthy_str v then [Print (label @ the v)] else [])"

definition print_date :: "runtime \<Rightarrow> string \<Rightarrow> datetime option \<Rightarrow> event list" where
  "print_date rt label v =
     (case v of None \<Rightarrow> [] | Some d \<Rightarrow> [Print (label @ strftime rt d ''%Y-%m-%d'')])"

definition print_bool :: "string \<Rightarrow> bool option \<Rightarrow> event list" where
  "print_bool label v = (case v of None \<Rightarrow> [] | Some b \<Rightarrow> [Print (label @ show_bool b)])"

definition report_sub :: "runtime \<Rightarrow> subscription \<Rightarrow> event list" where
  "report_sub rt sub =
     Print (''\<newline>Name: '' @ name sub) #
     print_str ''URL: '' (url sub) @
     print_str ''Folder: '' (folder sub) @
     print_str ''Description: '' (description sub) @
     print_str ''Newsletter email: '' (newsletter_email sub) @
     print_date rt ''Created at: '' (created_at sub) @
     print_date rt ''Last fetched at: '' (last_fetched_at sub) @
     print_date rt ''Refreshed at: '' (refreshed_at sub) @
     (case count' sub of None \<Rightarrow> [] | Some n \<Rightarrow> [Print (''Count: '' @ show_int n)]) @
     print_str ''Icon: '' (icon sub) @
     print_bool ''Is private: '' (is_private sub) @
     print_bool ''Auto add to library: '' (auto_add_to_library sub) @
     print_bool ''Fetch content: '' (fetch_content sub) @
     print_date rt ''Failed at: '' (failed_at sub)"

definition report :: "runtime \<Rightarrow> subscription list \<Rightarrow> event list" where
  "report rt subscriptions =
     Print (''\<newline>Found '' @ show_nat (length subscriptions) @ '' RSS subscriptions:'') #
     concat (map (report_sub rt) subscriptions)"

text \<open>Lines 195 to 250: what runs inside the \<^verbatim>\<open>try\<close> of \<^verbatim>\<open>main\<close>.\<close>

definition run :: "runtime \<Rightarrow> client \<Rightarrow> bool \<Rightarrow> event list \<times> (error + unit)" where
  "run rt cl flag =
     (case get_subscriptions rt cl of
        (ev, Inl e) \<Rightarrow> (Print ''Fetching subscriptions...'' # ev, Inl e)
      | (ev, Inr fetched) \<Rightarrow>
          (case filter_subscriptions flag fetched of
             Inl e \<Rightarrow> (Print ''Fetching subscriptions...'' # ev, Inl e)
           | Inr subscriptions \<Rightarrow>
               (let output_file =
                      ''omnivore_rss_export_'' @ strftime rt (now rt 0) ''%Y%m%d'' @ ''.opml''
                in (Print ''Fetching subscriptions...'' # ev @
                    filter_prints flag fetched subscriptions @
                    report rt subscriptions @
                    export_to_opml rt subscriptions output_file @
                    [Print (''\<newline>Exported subscriptions to '' @ output_file)],
                    Inr ()))))"

text \<open>
  \<^verbatim>\<open>main\<close>: the configuration step raises outside the \<^verbatim>\<open>try\<close>; an exception inside it is
  printed and raised again.
\<close>

definition main :: "runtime \<Rightarrow> (string \<Rightarrow> string option) \<Rightarrow> bool \<Rightarrow> event list \<times> (error + unit)" where
  "main rt env flag =
     (if missing_vars env \<noteq> [] then
        ([], Inl (ValueError (''Missing required environment variables: '' @
                              join '', '' (missing_vars env))))
      else
        (case run rt (OmnivoreClient (the (env ''OMNIVORE_API_TOKEN''))
                                     (the (env ''OMNIVORE_HOST''))
                                     (the (env ''OMNIVORE_GRAPH_QL_PATH''))) flag of
           (ev, Inl e) \<Rightarrow> (ev @ [Print (''Error: '' @ str_exc rt e)], Inl e)
         | (ev, Inr u) \<Rightarrow> (ev, Inr u)))"

subsection \<open>The specification's words\<close>

text \<open>
  The filter as the specification describes it: a subscription is dropped when
  \<^verbatim>\<open>last_fetched_at\<close> is absent, or when \<^verbatim>\<open>created_at\<close> and \<^verbatim>\<open>last_fetched_at\<close> are both
  present and the absolute difference between them is under 60 seconds.
\<close>

definition spec_dropped :: "subscription \<Rightarrow> bool" where
  "spec_dropped sub \<longleftrightarrow>
     last_fetched_at sub = None \<or>
     (case (created_at sub, last_fetched_at sub) of
        (Some created, Some fetched) \<Rightarrow>
          (case dt_sub fetched created of Inr td \<Rightarrow> \<bar>td\<bar> < 60 * 1000000 | Inl e \<Rightarrow> False)
      | _ \<Rightarrow> False)"

text \<open>
  The two timestamps the filter subtracts have a difference: they are not one naive and
  one aware datetime. Timestamps parsed from strings that end in \<^verbatim>\<open>Z\<close> are all aware.
\<close>

definition timestamps_comparable :: "subscription \<Rightarrow> bool" where
  "timestamps_comparable sub \<longleftrightarrow>
     (case (created_at sub, last_fetched_at sub) of
        (Some created, Some fetched) \<Rightarrow>
          (case dt_sub fetched created of Inr td \<Rightarrow> True | Inl e \<Rightarrow> False)
      | _ \<Rightarrow> True)"


text \<open>\<^verbatim>\<open>Subscription(name=n)\<close>: every other field has the default \<^verbatim>\<open>None\<close>.\<close>

definition Subscription :: "string \<Rightarrow> subscription" where
  "Subscription n =
     \<lparr> name = n, url = None, folder = None, created_at = None, last_fetched_at = None,
       description = None, newsletter_email = None, refreshed_at = None, count' = None,
       icon = None, is_private = None, auto_add_to_library = None, fetch_content = None,
       failed_at = None \<rparr>"

text \<open>\<^verbatim>\<open>Subscription(name=n, url=u, folder=fo)\<close>.\<close>

definition feed :: "string \<Rightarrow> string option \<Rightarrow> string option \<Rightarrow> subscription" where
  "feed n u fo = (Subscription n)\<lparr>url := u, folder := fo\<rparr>"

subsection \<open>Example inputs\<close>

text \<open>
  A runtime for the examples: the network gives \<open>answer\<close>, the clock reads 2024-01-01, the
  ISO-8601 parser knows the two timestamps of the examples, and \<^verbatim>\<open>json.dumps\<close> and \<^verbatim>\<open>str\<close> print
  a list of one string as Python does.
\<close>

definition example_runtime :: "string + response \<Rightarrow> runtime" where
  \<open>example_runtime answer =
     \<lparr> post = (\<lambda>u h q. answer),
       fromisoformat =
         (\<lambda>s. if s = ''2024-01-01T00:00:00+00:00'' then Some (Aware 63839664000000000 0)
              else if s = ''2024-01-01T00:00:05+00:00'' then Some (Aware 63839664005000000 0)
              else None),
       dumps = (\<lambda>v. case v of JArr [JStr s] \<Rightarrow> ''[\<newline>  "'' @ s @ ''"\<newline>]'' | _ \<Rightarrow> ''<json>''),
       str_json = (\<lambda>v. case v of JArr [JStr s] \<Rightarrow> ''['' @ [CHR 0x27] @ s @ [CHR 0x27] @ '']''
                              | _ \<Rightarrow> ''<value>''),
       str_exc = (\<lambda>e. ''<exception>''),
       strftime = (\<lambda>d fmt. if fmt = ''%Y%m%d'' then ''20240101'' else ''2024-01-01''),
       now = (\<lambda>k. Naive 63839664000000000) \<rparr>\<close>

text \<open>Four feeds in the folders A, none, A, B; the third has no URL.\<close>

definition spec_example :: "subscription list" where
  "spec_example =
     [feed ''a1'' (Some ''u1'') (Some ''A''), feed ''x'' (Some ''u2'') None,
      feed ''a2'' None (Some ''A''), feed ''b'' (Some ''u4'') (Some ''B'')]"

text \<open>A feed whose name, URL and folder hold the reserved characters of XML.\<close>

definition quoted_feed :: subscription where
  \<open>quoted_feed = feed ''Q&A <"x">'' (Some ''http://e.x/?a=1&b="2"'') (Some ''R&D'')\<close>

text \<open>
  The scenario of the specification: one item \<^verbatim>\<open>Tech News\<close>, created at midnight and fetched
  five seconds later, the response that carries it, and the record it maps to.
\<close>

definition tech_news_item :: json where
  "tech_news_item =
     JObj [(''name'', JStr ''Tech News''), (''url'', JStr ''https://example.com/feed''),
           (''folder'', JStr ''News''), (''createdAt'', JStr ''2024-01-01T00:00:00Z''),
           (''lastFetchedAt'', JStr ''2024-01-01T00:00:05Z'')]"

definition success_body :: json where
  "success_body =
     JObj [(''data'', JObj [(''subscriptions'', JObj [(''subscriptions'', JArr [tech_news_item])])])]"

definition tech_news :: subscription where
  "tech_news =
     (feed ''Tech News'' (Some ''https://example.com/feed'') (Some ''News''))
       \<lparr> created_at := Some (Aware 63839664000000000 0),
         last_fetched_at := Some (Aware 63839664005000000 0) \<rparr>"

text \<open>A response with the given status and JSON body, and the client of the examples.\<close>

definition respond :: "int \<Rightarrow> json \<Rightarrow> response" where
  "respond code body =
     \<lparr> status_code = code, response_headers = ''{}'', response_text = ''<body>'',
       json_result = Some body \<rparr>"

definition example_client :: client where
  "example_client = OmnivoreClient ''secret'' ''api.example.com'' ''/api/graphql''"

text \<open>
  Two error bodies: one with a top-level \<^verbatim>\<open>errors\<close> field and \<^verbatim>\<open>errorCodes\<close> in the
  subscriptions result, one with \<^verbatim>\<open>errorCodes\<close> alone.
\<close>

definition errors_and_codes_body :: json where
  "errors_and_codes_body =
     JObj [(''errors'', JArr [JStr ''boom'']),
           (''data'', JObj [(''subscriptions'', JObj [(''errorCodes'', JArr [JStr ''UNAUTHORIZED''])])])]"

definition error_codes_body :: json where
  "error_codes_body =
     JObj [(''data'', JObj [(''subscriptions'', JObj [(''errorCodes'', JArr [JStr ''UNAUTHORIZED''])])])]"

text \<open>
  Four environments: the host not set; the token empty and the host not set; the host
  one space; all three set.
\<close>

definition host_missing_env :: "string \<Rightarrow> string option" where
  "host_missing_env =
     map_of [(''OMNIVORE_API_TOKEN'', ''secret''), (''OMNIVORE_GRAPH_QL_PATH'', ''/api/graphql'')]"

definition only_path_env :: "string \<Rightarrow> string option" where
  "only_path_env =
     map_of [(''OMNIVORE_API_TOKEN'', ''''), (''OMNIVORE_GRAPH_QL_PATH'', ''/api/graphql'')]"

definition blank_host_env :: "string \<Rightarrow> string option" where
  "blank_host_env =
     map_of [(''OMNIVORE_API_TOKEN'', ''secret''), (''OMNIVORE_HOST'', '' ''),
             (''OMNIVORE_GRAPH_QL_PATH'', ''/api/graphql'')]"

definition full_env :: "string \<Rightarrow> string option" where
  "full_env =
     map_of [(''OMNIVORE_API_TOKEN'', ''secret''), (''OMNIVORE_HOST'', ''api.example.com''),
             (''OMNIVORE_GRAPH_QL_PATH'', ''/api/graphql'')]"

section \<open>The filter\<close>

lemma dt_sub_error: "dt_sub a b = Inl e \<Longrightarrow> e = TypeError"
  by (cases a; cases b) auto

lemma dt_eq_sub: "dt_eq a b \<Longrightarrow> dt_sub b a = Inr 0"
  by (cases a; cases b) auto

lemma never_fetched_char:
  "never_fetched sub = (if timestamps_comparable sub then Inr (spec_dropped sub) else Inl TypeError)"
  by (auto simp: never_fetched_def timestamps_comparable_def spec_dropped_def bind_err_def
           split: option.splits sum.splits dest: dt_sub_error)

lemma exclude_unfetched_char:
  "exclude_unfetched subs =
     (if list_all timestamps_comparable subs
      then Inr (filter (\<lambda>sub. \<not> spec_dropped sub) subs)
      else Inl TypeError)"
  by (induction subs) (simp_all add: never_fetched_char bind_err_def)

lemma same_instant_never_fetched:
  "created_at sub = Some c \<Longrightarrow> last_fetched_at sub = Some f \<Longrightarrow> dt_eq c f \<Longrightarrow>
   never_fetched sub = Inr True"
  by (simp add: never_fetched_def bind_err_def dt_eq_sub)

lemma exclude_unfetched_idem:
  "exclude_unfetched subs = Inr kept \<Longrightarrow> exclude_unfetched kept = Inr kept"
  by (auto simp: exclude_unfetched_char list_all_iff split: if_splits)

lemma exclude_unfetched_filter:
  "exclude_unfetched subs = Inr kept \<Longrightarrow> kept = filter (\<lambda>sub. \<not> spec_dropped sub) subs"
  by (auto simp: exclude_unfetched_char split: if_splits)

text \<open>
  Claim C1. With \<^verbatim>\<open>--exclude-unfetched\<close> set, the filter keeps exactly the subscriptions the
  specification does not drop, in their order: a subscription is dropped if and only if
  its \<^verbatim>\<open>last_fetched_at\<close> is absent, or both timestamps are present and less than 60
  seconds apart. The subtraction of the source raises \<^verbatim>\<open>TypeError\<close> when one timestamp is
  naive and the other aware, and only then; the filter returns a list in every other
  case. A subscription whose \<^verbatim>\<open>created_at\<close> and \<^verbatim>\<open>last_fetched_at\<close> are the same instant
  satisfies the condition of the comprehension, and is in no list the filter returns.
\<close>

theorem exclude_unfetched_drops_never_fetched:
  "filter_subscriptions True subs =
     (if list_all timestamps_comparable subs
      then Inr (filter (\<lambda>sub. \<not> spec_dropped sub) subs)
      else Inl TypeError)
   \<and> (\<forall>sub c f. created_at sub = Some c \<and> last_fetched_at sub = Some f \<and> dt_eq c f \<longrightarrow>
          never_fetched sub = Inr True \<and>
          (\<forall>kept. filter_subscriptions True subs = Inr kept \<longrightarrow> sub \<notin> set kept))"
proof -
  have drop: "sub \<notin> set kept"
    if "created_at sub = Some c" "last_fetched_at sub = Some f" "dt_eq c f"
       "filter_subscriptions True subs = Inr kept" for sub c f kept
  proof -
    have "never_fetched sub = Inr True"
      using that(1-3) by (rule same_instant_never_fetched)
    then have "spec_dropped sub"
      by (simp add: never_fetched_char split: if_splits)
    moreover have "kept = filter (\<lambda>sub. \<not> spec_dropped sub) subs"
      using that(4) by (simp add: filter_subscriptions_def exclude_unfetched_filter)
    ultimately show ?thesis by simp
  qed
  show ?thesis
    using drop by (auto simp: filter_subscriptions_def exclude_unfetched_char
                        intro: same_instant_never_fetched)
qed

text \<open>
  Five feeds: never fetched, fetched at the instant of creation, fetched 59.999999
  seconds after creation, fetched 60 seconds after creation, fetched with no creation
  time. The last two survive.
\<close>

theorem exclude_unfetched_drops_never_fetched_witness:
  "list_all timestamps_comparable
     [Subscription ''a'',
      (Subscription ''b'')\<lparr>created_at := Some (Aware 0 0), last_fetched_at := Some (Aware 0 0)\<rparr>,
      (Subscription ''c'')\<lparr>created_at := Some (Aware 0 0), last_fetched_at := Some (Aware 59999999 0)\<rparr>,
      (Subscription ''d'')\<lparr>created_at := Some (Aware 0 0), last_fetched_at := Some (Aware 60000000 0)\<rparr>,
      (Subscription ''e'')\<lparr>last_fetched_at := Some (Aware 5 0)\<rparr>]
   \<and> filter_subscriptions True
     [Subscription ''a'',
      (Subscription ''b'')\<lparr>created_at := Some (Aware 0 0), last_fetched_at := Some (Aware 0 0)\<rparr>,
      (Subscription ''c'')\<lparr>created_at := Some (Aware 0 0), last_fetched_at := Some (Aware 59999999 0)\<rparr>,
      (Subscription ''d'')\<lparr>created_at := Some (Aware 0 0), last_fetched_at := Some (Aware 60000000 0)\<rparr>,
      (Subscription ''e'')\<lparr>last_fetched_at := Some (Aware 5 0)\<rparr>]
     = Inr [(Subscription ''d'')\<lparr>created_at := Some (Aware 0 0), last_fetched_at := Some (Aware 60000000 0)\<rparr>,
            (Subscription ''e'')\<lparr>last_fetched_at := Some (Aware 5 0)\<rparr>]
   \<and> dt_eq (Aware 0 0) (Aware 0 0)
   \<and> never_fetched
        ((Subscription ''b'')\<lparr>created_at := Some (Aware 0 0), last_fetched_at := Some (Aware 0 0)\<rparr>)
      = Inr True"
  using exclude_unfetched_drops_never_fetched
    [of "[Subscription ''a'',
      (Subscription ''b'')\<lparr>created_at := Some (Aware 0 0), last_fetched_at := Some (Aware 0 0)\<rparr>,
      (Subscription ''c'')\<lparr>created_at := Some (Aware 0 0), last_fetched_at := Some (Aware 59999999 0)\<rparr>,
      (Subscription ''d'')\<lparr>created_at := Some (Aware 0 0), last_fetched_at := Some (Aware 60000000 0)\<rparr>,
      (Subscription ''e'')\<lparr>last_fetched_at := Some (Aware 5 0)\<rparr>]"]
  by (simp add: Subscription_def timestamps_comparable_def spec_dropped_def)

text \<open>
  Claim C9. The filter is idempotent: when it returns a list, applying it to that list
  returns the same list; as one equation, running the filter on its own result (an
  exception of the first run ends both) is running it once.
\<close>

theorem filter_subscriptions_idempotent:
  "(\<forall>kept. filter_subscriptions flag subs = Inr kept \<longrightarrow>
            filter_subscriptions flag kept = Inr kept)
   \<and> bind_err (filter_subscriptions flag subs) (filter_subscriptions flag)
       = filter_subscriptions flag subs"
proof -
  have once: "filter_subscriptions flag kept = Inr kept"
    if "filter_subscriptions flag subs = Inr kept" for kept
    using that by (cases flag) (auto simp: filter_subscriptions_def dest: exclude_unfetched_idem)
  then show ?thesis
    by (cases "filter_subscriptions flag subs") (auto simp: bind_err_def)
qed

theorem filter_subscriptions_idempotent_witness:
  "filter_subscriptions True
     [Subscription ''a'',
      (Subscription ''d'')\<lparr>created_at := Some (Aware 0 0), last_fetched_at := Some (Aware 60000000 0)\<rparr>]
     = Inr [(Subscription ''d'')\<lparr>created_at := Some (Aware 0 0), last_fetched_at := Some (Aware 60000000 0)\<rparr>]
   \<and> filter_subscriptions True
     [(Subscription ''d'')\<lparr>created_at := Some (Aware 0 0), last_fetched_at := Some (Aware 60000000 0)\<rparr>]
     = Inr [(Subscription ''d'')\<lparr>created_at := Some (Aware 0 0), last_fetched_at := Some (Aware 60000000 0)\<rparr>]"
proof -
  have first: "filter_subscriptions True
     [Subscription ''a'',
      (Subscription ''d'')\<lparr>created_at := Some (Aware 0 0), last_fetched_at := Some (Aware 60000000 0)\<rparr>]
     = Inr [(Subscription ''d'')\<lparr>created_at := Some (Aware 0 0), last_fetched_at := Some (Aware 60000000 0)\<rparr>]"
    by (simp add: filter_subscriptions_def never_fetched_def bind_err_def Subscription_def)
  with filter_subscriptions_idempotent
    [of True "[Subscription ''a'',
      (Subscription ''d'')\<lparr>created_at := Some (Aware 0 0), last_fetched_at := Some (Aware 60000000 0)\<rparr>]"]
  show ?thesis by blast
qed

text \<open>
  Claim C10. Whatever the flag, a list the filter returns is a subsequence of its input:
  it is the input with some records deleted, so every surviving record is a record of
  the input with no field changed, the records keep their relative order, and none is
  duplicated or introduced.
\<close>

theorem filter_subscriptions_subseq:
  "filter_subscriptions flag subs = Inr kept \<Longrightarrow>
     subseq kept subs \<and> mset kept \<subseteq># mset subs \<and> set kept \<subseteq> set subs"
proof -
  assume ret: "filter_subscriptions flag subs = Inr kept"
  have "kept = subs \<or> kept = filter (\<lambda>sub. \<not> spec_dropped sub) subs"
    using ret by (cases flag) (auto simp: filter_subscriptions_def dest: exclude_unfetched_filter)
  then show ?thesis
    by (auto simp: multiset_filter_subset)
qed

theorem filter_subscriptions_subseq_witness:
  "filter_subscriptions True
     [Subscription ''a'',
      (Subscription ''d'')\<lparr>created_at := Some (Aware 0 0), last_fetched_at := Some (Aware 60000000 0)\<rparr>,
      Subscription ''b'']
     = Inr [(Subscription ''d'')\<lparr>created_at := Some (Aware 0 0), last_fetched_at := Some (Aware 60000000 0)\<rparr>]
   \<and> subseq
       [(Subscription ''d'')\<lparr>created_at := Some (Aware 0 0), last_fetched_at := Some (Aware 60000000 0)\<rparr>]
       [Subscription ''a'',
        (Subscription ''d'')\<lparr>created_at := Some (Aware 0 0), last_fetched_at := Some (Aware 60000000 0)\<rparr>,
        Subscription ''b'']"
proof -
  have ret: "filter_subscriptions True
     [Subscription ''a'',
      (Subscription ''d'')\<lparr>created_at := Some (Aware 0 0), last_fetched_at := Some (Aware 60000000 0)\<rparr>,
      Subscription ''b'']
     = Inr [(Subscription ''d'')\<lparr>created_at := Some (Aware 0 0), last_fetched_at := Some (Aware 60000000 0)\<rparr>]"
    by (simp add: filter_subscriptions_def never_fetched_def bind_err_def Subscription_def)
  from filter_subscriptions_subseq [OF ret] ret show ?thesis by blast
qed

section \<open>Grouping and serialisation\<close>

text \<open>
  The dict of folders after the loop: its keys are the folders in the order of their
  first subscription, and the list of a key is the subscriptions of that folder in the
  order of the input.
\<close>

lemma add_to_folder_step:
  "add_to_folder (map (\<lambda>k. (k, filter (\<lambda>s. folder_of s = k) xs)) (rev (remdups (rev (map folder_of xs))))) x
   = map (\<lambda>k. (k, filter (\<lambda>s. folder_of s = k) (xs @ [x]))) (rev (remdups (rev (map folder_of (xs @ [x])))))"
proof (cases "folder_of x \<in> folder_of ` set xs")
  case True
  then show ?thesis
    by (auto simp: add_to_folder_def Let_def comp_def)
next
  case False
  then have "\<forall>s\<in>set xs. folder_of s \<noteq> folder_of x"
    by (metis imageI)
  then have "filter (\<lambda>s. folder_of s = folder_of x) xs = []"
    by simp
  with False show ?thesis
    by (auto simp: add_to_folder_def Let_def comp_def)
qed

lemma group_by_folder_char:
  "group_by_folder subs =
     map (\<lambda>k. (k, filter (\<lambda>s. folder_of s = k) subs)) (rev (remdups (rev (map folder_of subs))))"
proof (induction subs rule: rev_induct)
  case Nil
  show ?case by (simp add: group_by_folder_def)
next
  case (snoc x xs)
  have "group_by_folder (xs @ [x]) = add_to_folder (group_by_folder xs) x"
    by (simp add: group_by_folder_def)
  then show ?case
    using snoc.IH add_to_folder_step by simp
qed

lemma buckets_mset:
  "distinct ks \<Longrightarrow>
   mset (concat (map (\<lambda>k. filter (\<lambda>s. P s \<and> f s = k) xs) ks)) = filter_mset (\<lambda>s. P s \<and> f s \<in> set ks) (mset xs)"
proof (induction ks)
  case Nil
  show ?case by simp
next
  case (Cons k ks)
  have "filter_mset (\<lambda>s. P s \<and> f s = k) (mset xs) + filter_mset (\<lambda>s. P s \<and> f s \<in> set ks) (mset xs)
        = filter_mset (\<lambda>s. P s \<and> f s \<in> set (k # ks)) (mset xs)"
    using Cons.prems by (induction xs) auto
  with Cons show ?case by simp
qed

lemma group_by_folder_partition:
  "mset (concat (map (\<lambda>(k, b). filter P b) (group_by_folder subs))) = filter_mset P (mset subs)"
proof -
  let ?ks = "rev (remdups (rev (map folder_of subs)))"
  have "concat (map (\<lambda>(k, b). filter P b) (group_by_folder subs))
        = concat (map (\<lambda>k. filter (\<lambda>s. P s \<and> folder_of s = k) subs) ?ks)"
    by (simp add: group_by_folder_char comp_def conj_commute)
  moreover have "distinct ?ks" by simp
  moreover have "filter_mset (\<lambda>s. P s \<and> folder_of s \<in> set ?ks) (mset subs) = filter_mset P (mset subs)"
    by (rule filter_mset_cong) auto
  ultimately show ?thesis
    by (simp add: buckets_mset)
qed

lemma group_by_folder_mset:
  "mset (concat (map (\<lambda>item. filter P (snd item)) (group_by_folder subs))) = filter_mset P (mset subs)"
  using group_by_folder_partition [of P subs] by (simp add: case_prod_unfold)

text \<open>The document is the head, the text of each folder in turn, and the tail.\<close>

lemma foldl_write_sub:
  "foldl write_sub opml subs =
     opml @ concat (map leaf_outline (filter (\<lambda>s. truthy_str (url s)) subs))"
  by (induction subs arbitrary: opml) (simp_all add: write_sub_def)

lemma write_folder_text:
  "write_folder opml (fo, b) =
     opml @ (if fo = ''Uncategorized'' then foldl write_sub [] b
             else folder_open fo @ foldl write_sub [] b @ folder_close)"
  by (simp add: write_folder_def Let_def foldl_write_sub)

lemma write_folder_item:
  "write_folder [] item =
     (if fst item = ''Uncategorized'' then foldl write_sub [] (snd item)
      else folder_open (fst item) @ foldl write_sub [] (snd item) @ folder_close)"
  by (cases item) (simp add: write_folder_text)

lemma foldl_write_folder:
  "foldl write_folder opml items = opml @ concat (map (write_folder []) items)"
proof (induction items arbitrary: opml)
  case Nil
  show ?case by simp
next
  case (Cons a items)
  obtain fo b where a: "a = (fo, b)" by (cases a)
  have "write_folder opml a = opml @ write_folder [] a"
    unfolding a by (simp add: write_folder_text)
  with Cons.IH [of "write_folder opml a"] show ?case by simp
qed

lemma opml_document_char:
  "opml_document rt subs =
     opml_head rt @ concat (map (write_folder []) (group_by_folder subs)) @ opml_tail"
  by (simp add: opml_document_def foldl_write_folder)

text \<open>Where a line written for a subscription or a folder stands in the document.\<close>

lemma sublist_concat: "x \<in> set xs \<Longrightarrow> sublist x (concat xs)"
proof -
  assume "x \<in> set xs"
  then obtain as bs where "xs = as @ x # bs" by (auto dest: split_list)
  then have "concat xs = concat as @ x @ concat bs" by simp
  then show ?thesis by (metis sublist_appendI)
qed

lemma bucket_in_document:
  assumes "sub \<in> set subs"
  shows "sublist (write_folder [] (folder_of sub, filter (\<lambda>s. folder_of s = folder_of sub) subs))
           (opml_document rt subs)"
proof -
  have "(folder_of sub, filter (\<lambda>s. folder_of s = folder_of sub) subs) \<in> set (group_by_folder subs)"
    using assms by (auto simp: group_by_folder_char)
  then have "write_folder [] (folder_of sub, filter (\<lambda>s. folder_of s = folder_of sub) subs)
               \<in> set (map (write_folder []) (group_by_folder subs))"
    unfolding set_map by (rule imageI)
  then have "sublist (write_folder [] (folder_of sub, filter (\<lambda>s. folder_of s = folder_of sub) subs))
               (concat (map (write_folder []) (group_by_folder subs)))"
    by (rule sublist_concat)
  then show ?thesis
    unfolding opml_document_char by (metis sublist_appendI sublist_order.order_trans)
qed

lemma bucket_text_in_folder:
  "sublist (foldl write_sub [] b) (write_folder [] (fo, b))"
  by (simp add: write_folder_text sublist_appendI)

lemma leaf_in_document:
  assumes "sub \<in> set subs" "truthy_str (url sub)"
  shows "sublist (leaf_outline sub) (opml_document rt subs)"
proof -
  let ?b = "filter (\<lambda>s. folder_of s = folder_of sub) subs"
  have "leaf_outline sub \<in> set (map leaf_outline (filter (\<lambda>s. truthy_str (url s)) ?b))"
    using assms by simp
  then have "sublist (leaf_outline sub) (concat (map leaf_outline (filter (\<lambda>s. truthy_str (url s)) ?b)))"
    by (rule sublist_concat)
  then have "sublist (leaf_outline sub) (foldl write_sub [] ?b)"
    by (simp add: foldl_write_sub)
  then have "sublist (leaf_outline sub) (write_folder [] (folder_of sub, ?b))"
    using bucket_text_in_folder by (rule sublist_order.order_trans)
  then show ?thesis
    using bucket_in_document [OF assms(1)] by (rule sublist_order.order_trans)
qed

lemma folder_open_in_document:
  assumes "sub \<in> set subs" "folder_of sub \<noteq> ''Uncategorized''"
  shows "sublist (folder_open (folder_of sub)) (opml_document rt subs)"
proof -
  let ?b = "filter (\<lambda>s. folder_of s = folder_of sub) subs"
  have "sublist (folder_open (folder_of sub)) (write_folder [] (folder_of sub, ?b))"
    using assms(2) by (simp add: write_folder_text sublist_append_rightI)
  then show ?thesis
    using bucket_in_document [OF assms(1)] by (rule sublist_order.order_trans)
qed

lemma name_in_leaf: "sublist (name sub) (leaf_outline sub)"
  unfolding leaf_outline_def by (rule sublist_appendI)

lemma url_in_leaf: "sublist (the (url sub)) (leaf_outline sub)"
proof -
  have \<open>sublist (the (url sub))
          ((''      <outline type="rss" text="'' @ name sub @ ''" title="'' @ name sub @
            ''" xmlUrl="'') @ the (url sub) @ ''"/>\<newline>'')\<close>
    by (rule sublist_appendI)
  then show ?thesis
    by (simp add: leaf_outline_def)
qed

lemma name_in_folder_open: "sublist fo (folder_open fo)"
  unfolding folder_open_def by (rule sublist_appendI)

lemma report_names: "sub \<in> set subs \<Longrightarrow> Print (''\<newline>Name: '' @ name sub) \<in> set (report rt subs)"
  by (auto simp: report_def report_sub_def)

text \<open>The examples, evaluated.\<close>

lemma spec_example_groups:
  "group_by_folder spec_example =
   [(''A'', [feed ''a1'' (Some ''u1'') (Some ''A''), feed ''a2'' None (Some ''A'')]),
    (''Uncategorized'', [feed ''x'' (Some ''u2'') None]),
    (''B'', [feed ''b'' (Some ''u4'') (Some ''B'')])]"
  by (simp add: spec_example_def group_by_folder_def add_to_folder_def Let_def folder_of_def
        feed_def Subscription_def)

lemma spec_example_document:
  \<open>opml_document (example_runtime (Inl [])) spec_example =
     ''<?xml version="1.0" encoding="UTF-8"?>\<newline>'' @
     ''<opml version="2.0">\<newline>'' @
     ''  <head>\<newline>'' @
     ''    <title>Omnivore RSS Subscriptions Export - 2024-01-01</title>\<newline>'' @
     ''  </head>\<newline>'' @
     ''  <body>\<newline>'' @
     ''    <outline text="A" title="A">\<newline>'' @
     ''      <outline type="rss" text="a1" title="a1" xmlUrl="u1"/>\<newline>'' @
     ''    </outline>\<newline>'' @
     ''      <outline type="rss" text="x" title="x" xmlUrl="u2"/>\<newline>'' @
     ''    <outline text="B" title="B">\<newline>'' @
     ''      <outline type="rss" text="b" title="b" xmlUrl="u4"/>\<newline>'' @
     ''    </outline>\<newline>'' @
     ''  </body>\<newline>'' @
     ''</opml>''\<close>
  unfolding opml_document_def spec_example_groups
  by (simp add: write_folder_def write_sub_def leaf_outline_def
        folder_open_def folder_close_def opml_head_def opml_tail_def example_runtime_def
        feed_def Subscription_def)

lemma quoted_feed_document:
  \<open>opml_document (example_runtime (Inl [])) [quoted_feed] =
     ''<?xml version="1.0" encoding="UTF-8"?>\<newline>'' @
     ''<opml version="2.0">\<newline>'' @
     ''  <head>\<newline>'' @
     ''    <title>Omnivore RSS Subscriptions Export - 2024-01-01</title>\<newline>'' @
     ''  </head>\<newline>'' @
     ''  <body>\<newline>'' @
     ''    <outline text="R&D" title="R&D">\<newline>'' @
     ''      <outline type="rss" text="Q&A <"x">" title="Q&A <"x">" xmlUrl="http://e.x/?a=1&b="2""/>\<newline>'' @
     ''    </outline>\<newline>'' @
     ''  </body>\<newline>'' @
     ''</opml>''\<close>
  by (simp add: opml_document_def group_by_folder_def add_to_folder_def Let_def folder_of_def
        write_folder_def write_sub_def leaf_outline_def quoted_feed_def
        folder_open_def folder_close_def opml_head_def opml_tail_def example_runtime_def
        feed_def Subscription_def)

text \<open>
  Claim C2. Grouping is a function of the list (so deterministic) and a partition of it:
  the folders appear in first-seen order, each once; the bucket of a folder is the
  subscriptions of that folder in input order; together the buckets hold every
  subscription once. A subscription whose folder is absent or empty is in the bucket
  \<^verbatim>\<open>Uncategorized\<close>. In the document the text of that bucket is its leaf elements alone;
  the text of every other bucket stands between an opening folder \<^verbatim>\<open>outline\<close> element and
  its closing tag.
\<close>

theorem group_by_folder_ordered_partition:
  "map fst (group_by_folder subs) = rev (remdups (rev (map folder_of subs)))
   \<and> distinct (map fst (group_by_folder subs))
   \<and> (\<forall>item \<in> set (group_by_folder subs).
        snd item = filter (\<lambda>sub. folder_of sub = fst item) subs)
   \<and> mset (concat (map snd (group_by_folder subs))) = mset subs
   \<and> (\<forall>sub. folder sub = None \<or> folder sub = Some [] \<longrightarrow> folder_of sub = ''Uncategorized'')
   \<and> (\<forall>sub f. folder sub = Some f \<and> f \<noteq> [] \<longrightarrow> folder_of sub = f)
   \<and> opml_document rt subs =
       opml_head rt @
       concat (map (\<lambda>item. if fst item = ''Uncategorized''
                            then foldl write_sub [] (snd item)
                            else folder_open (fst item) @ foldl write_sub [] (snd item) @ folder_close)
                   (group_by_folder subs)) @
       opml_tail"
proof -
  have keys: "map fst (group_by_folder subs) = rev (remdups (rev (map folder_of subs)))"
    by (simp add: group_by_folder_char comp_def)
  then have dist: "distinct (map fst (group_by_folder subs))"
    by simp
  have buckets: "\<forall>item \<in> set (group_by_folder subs).
        snd item = filter (\<lambda>sub. folder_of sub = fst item) subs"
    by (auto simp: group_by_folder_char)
  have part: "mset (concat (map snd (group_by_folder subs))) = mset subs"
    using group_by_folder_mset [of "\<lambda>s. True" subs] by simp
  have unc: "\<forall>sub. folder sub = None \<or> folder sub = Some [] \<longrightarrow> folder_of sub = ''Uncategorized''"
    by (auto simp: folder_of_def)
  have named: "\<forall>sub f. folder sub = Some f \<and> f \<noteq> [] \<longrightarrow> folder_of sub = f"
    by (auto simp: folder_of_def)
  have doc: "opml_document rt subs =
       opml_head rt @
       concat (map (\<lambda>item. if fst item = ''Uncategorized''
                            then foldl write_sub [] (snd item)
                            else folder_open (fst item) @ foldl write_sub [] (snd item) @ folder_close)
                   (group_by_folder subs)) @
       opml_tail"
    unfolding opml_document_char by (simp add: write_folder_item [abs_def])
  from keys dist buckets part unc named doc show ?thesis by blast
qed

text \<open>
  The example of the specification: folders A, none, A, B give the order A,
  \<^verbatim>\<open>Uncategorized\<close> (no wrapper), B.
\<close>

theorem group_by_folder_ordered_partition_witness:
  \<open>map fst (group_by_folder spec_example) = [''A'', ''Uncategorized'', ''B'']
   \<and> (''A'', [feed ''a1'' (Some ''u1'') (Some ''A''), feed ''a2'' None (Some ''A'')])
       \<in> set (group_by_folder spec_example)
   \<and> [feed ''a1'' (Some ''u1'') (Some ''A''), feed ''a2'' None (Some ''A'')]
       = filter (\<lambda>sub. folder_of sub = ''A'') spec_example
   \<and> folder (feed ''x'' (Some ''u2'') None) = None
   \<and> folder_of (feed ''x'' (Some ''u2'') None) = ''Uncategorized''
   \<and> folder (feed ''b'' (Some ''u4'') (Some ''B'')) = Some ''B''
   \<and> folder_of (feed ''b'' (Some ''u4'') (Some ''B'')) = ''B''
   \<and> opml_document (example_runtime (Inl [])) spec_example =
       ''<?xml version="1.0" encoding="UTF-8"?>\<newline>'' @
       ''<opml version="2.0">\<newline>'' @
       ''  <head>\<newline>'' @
       ''    <title>Omnivore RSS Subscriptions Export - 2024-01-01</title>\<newline>'' @
       ''  </head>\<newline>'' @
       ''  <body>\<newline>'' @
       ''    <outline text="A" title="A">\<newline>'' @
       ''      <outline type="rss" text="a1" title="a1" xmlUrl="u1"/>\<newline>'' @
       ''    </outline>\<newline>'' @
       ''      <outline type="rss" text="x" title="x" xmlUrl="u2"/>\<newline>'' @
       ''    <outline text="B" title="B">\<newline>'' @
       ''      <outline type="rss" text="b" title="b" xmlUrl="u4"/>\<newline>'' @
       ''    </outline>\<newline>'' @
       ''  </body>\<newline>'' @
       ''</opml>''\<close>
proof -
  note inst = group_by_folder_ordered_partition [of spec_example "example_runtime (Inl [])"]
  have a: "(''A'', [feed ''a1'' (Some ''u1'') (Some ''A''), feed ''a2'' None (Some ''A'')])
       \<in> set (group_by_folder spec_example)"
    by (simp add: spec_example_groups)
  from inst a have b: "[feed ''a1'' (Some ''u1'') (Some ''A''), feed ''a2'' None (Some ''A'')]
       = filter (\<lambda>sub. folder_of sub = ''A'') spec_example"
    by fastforce
  have c: "folder (feed ''x'' (Some ''u2'') None) = None"
          "folder (feed ''b'' (Some ''u4'') (Some ''B'')) = Some ''B''"
    by (simp_all add: feed_def Subscription_def)
  from inst c have d: "folder_of (feed ''x'' (Some ''u2'') None) = ''Uncategorized''"
          "folder_of (feed ''b'' (Some ''u4'') (Some ''B'')) = ''B''"
    by simp_all
  have e: "map fst (group_by_folder spec_example) = [''A'', ''Uncategorized'', ''B'']"
    by (simp add: spec_example_groups)
  from a b c d e spec_example_document show ?thesis
    by simp
qed

text \<open>
  Claim C3, as amended. The serializer writes folder names, subscription names and URLs
  into the attributes as they are: for every subscription whose URL is present and not
  empty, its leaf line with the name and the URL unmodified is a contiguous part of the
  document, and for every folder name other than \<^verbatim>\<open>Uncategorized\<close> so is the folder line
  with the name unmodified. Nothing is escaped.
\<close>

theorem opml_interpolates_verbatim:
  \<open>(\<forall>sub u. sub \<in> set subs \<and> url sub = Some u \<and> u \<noteq> [] \<longrightarrow>
      sublist (''      <outline type="rss" text="'' @ name sub @ ''" title="'' @ name sub @
               ''" xmlUrl="'' @ u @ ''"/>\<newline>'') (opml_document rt subs)
      \<and> sublist (name sub) (opml_document rt subs)
      \<and> sublist u (opml_document rt subs))
   \<and> (\<forall>sub f. sub \<in> set subs \<and> folder sub = Some f \<and> f \<noteq> [] \<and> f \<noteq> ''Uncategorized'' \<longrightarrow>
      sublist (''    <outline text="'' @ f @ ''" title="'' @ f @ ''">\<newline>'')
              (opml_document rt subs)
      \<and> sublist f (opml_document rt subs))\<close>
proof -
  have leaf: \<open>sublist (''      <outline type="rss" text="'' @ name sub @ ''" title="'' @ name sub @
               ''" xmlUrl="'' @ u @ ''"/>\<newline>'') (opml_document rt subs)
      \<and> sublist (name sub) (opml_document rt subs)
      \<and> sublist u (opml_document rt subs)\<close>
    if "sub \<in> set subs" "url sub = Some u" "u \<noteq> []" for sub u
  proof -
    have doc: "sublist (leaf_outline sub) (opml_document rt subs)"
      using that by (intro leaf_in_document) simp_all
    have n: "sublist (name sub) (opml_document rt subs)"
      using name_in_leaf doc by (rule sublist_order.order_trans)
    have "sublist (the (url sub)) (opml_document rt subs)"
      using url_in_leaf doc by (rule sublist_order.order_trans)
    then have u: "sublist u (opml_document rt subs)"
      using that(2) by simp
    from doc have \<open>sublist (''      <outline type="rss" text="'' @ name sub @ ''" title="'' @ name sub @
               ''" xmlUrl="'' @ u @ ''"/>\<newline>'') (opml_document rt subs)\<close>
      using that(2) by (simp add: leaf_outline_def)
    with n u show ?thesis by simp
  qed
  have wrap: \<open>sublist (''    <outline text="'' @ f @ ''" title="'' @ f @ ''">\<newline>'')
              (opml_document rt subs)
      \<and> sublist f (opml_document rt subs)\<close>
    if "sub \<in> set subs" "folder sub = Some f" "f \<noteq> []" "f \<noteq> ''Uncategorized''" for sub f
  proof -
    have fo: "folder_of sub = f" using that by (simp add: folder_of_def)
    then have doc: "sublist (folder_open f) (opml_document rt subs)"
      using folder_open_in_document [of sub subs rt] that by simp
    have "sublist f (opml_document rt subs)"
      using name_in_folder_open doc by (rule sublist_order.order_trans)
    with doc show ?thesis by (simp add: folder_open_def)
  qed
  show ?thesis using leaf wrap by blast
qed

text \<open>
  A name, a URL and a folder with \<^verbatim>\<open>&\<close>, \<^verbatim>\<open><\<close> and double quotes stand in the document
  character for character.
\<close>

theorem opml_interpolates_verbatim_witness:
  \<open>quoted_feed \<in> set [quoted_feed]
   \<and> name quoted_feed = ''Q&A <"x">''
   \<and> url quoted_feed = Some ''http://e.x/?a=1&b="2"''
   \<and> folder quoted_feed = Some ''R&D''
   \<and> sublist ''      <outline type="rss" text="Q&A <"x">" title="Q&A <"x">" xmlUrl="http://e.x/?a=1&b="2""/>\<newline>''
        (opml_document (example_runtime (Inl [])) [quoted_feed])
   \<and> sublist ''    <outline text="R&D" title="R&D">\<newline>''
        (opml_document (example_runtime (Inl [])) [quoted_feed])
   \<and> opml_document (example_runtime (Inl [])) [quoted_feed] =
     ''<?xml version="1.0" encoding="UTF-8"?>\<newline>'' @
     ''<opml version="2.0">\<newline>'' @
     ''  <head>\<newline>'' @
     ''    <title>Omnivore RSS Subscriptions Export - 2024-01-01</title>\<newline>'' @
     ''  </head>\<newline>'' @
     ''  <body>\<newline>'' @
     ''    <outline text="R&D" title="R&D">\<newline>'' @
     ''      <outline type="rss" text="Q&A <"x">" title="Q&A <"x">" xmlUrl="http://e.x/?a=1&b="2""/>\<newline>'' @
     ''    </outline>\<newline>'' @
     ''  </body>\<newline>'' @
     ''</opml>''\<close>
proof -
  note inst = opml_interpolates_verbatim [of "[quoted_feed]" "example_runtime (Inl [])"]
  have f: \<open>name quoted_feed = ''Q&A <"x">''\<close>
          \<open>url quoted_feed = Some ''http://e.x/?a=1&b="2"''\<close>
          \<open>folder quoted_feed = Some ''R&D''\<close>
    by (simp_all add: quoted_feed_def feed_def Subscription_def)
  have leaf: \<open>sublist (''      <outline type="rss" text="'' @ name quoted_feed @ ''" title="'' @
                 name quoted_feed @ ''" xmlUrl="'' @ ''http://e.x/?a=1&b="2"'' @ ''"/>\<newline>'')
        (opml_document (example_runtime (Inl [])) [quoted_feed])\<close>
    using inst [THEN conjunct1, rule_format, of quoted_feed \<open>''http://e.x/?a=1&b="2"''\<close>] f
    by simp
  have wrap: \<open>sublist (''    <outline text="'' @ ''R&D'' @ ''" title="'' @ ''R&D'' @ ''">\<newline>'')
        (opml_document (example_runtime (Inl [])) [quoted_feed])\<close>
    using inst [THEN conjunct2, rule_format, of quoted_feed "''R&D''"] f
    by simp
  from leaf wrap f quoted_feed_document show ?thesis
    by simp
qed

text \<open>
  Claim C3 as it is stated holds for every subscription. It fails for a subscription
  whose URL is empty or absent: no line is written for it, so its name is nowhere in the
  document.
\<close>

theorem opml_name_of_feed_without_url_counterexample:
  "url (feed ''Qz'' (Some '''') None) = Some ''''
   \<and> url (feed ''Qy'' None None) = None
   \<and> \<not> sublist (name (feed ''Qz'' (Some '''') None))
         (opml_document (example_runtime (Inl []))
            [feed ''Qz'' (Some '''') None, feed ''Qy'' None None])
   \<and> \<not> sublist (name (feed ''Qy'' None None))
         (opml_document (example_runtime (Inl []))
            [feed ''Qz'' (Some '''') None, feed ''Qy'' None None])"
  by (simp add: opml_document_def group_by_folder_def add_to_folder_def Let_def folder_of_def
        write_folder_def write_sub_def leaf_outline_def
        folder_open_def folder_close_def opml_head_def opml_tail_def example_runtime_def
        feed_def Subscription_def sublist_code)

text \<open>
  Claim C7. The document is the head, then for each folder its wrapper (none for
  \<^verbatim>\<open>Uncategorized\<close>) around one leaf element for each subscription of the bucket whose
  URL is present and not empty, then the tail; over all buckets the subscriptions that
  get a leaf element are, each once, the subscriptions of the input with such a URL.
  A subscription whose URL is absent or empty gets none. The report prints the name of
  every subscription of the list, with or without a URL.
\<close>

theorem opml_leaf_per_subscription_with_url:
  "opml_document rt subs =
       opml_head rt @
       concat (map (\<lambda>item.
                 (if fst item \<noteq> ''Uncategorized'' then folder_open (fst item) else []) @
                 concat (map leaf_outline (filter (\<lambda>sub. truthy_str (url sub)) (snd item))) @
                 (if fst item \<noteq> ''Uncategorized'' then folder_close else []))
               (group_by_folder subs)) @
       opml_tail
   \<and> mset (concat (map (\<lambda>item. filter (\<lambda>sub. truthy_str (url sub)) (snd item))
                        (group_by_folder subs)))
       = filter_mset (\<lambda>sub. truthy_str (url sub)) (mset subs)
   \<and> (\<forall>sub. url sub = None \<or> url sub = Some [] \<longrightarrow> \<not> truthy_str (url sub))
   \<and> (\<forall>sub u. url sub = Some u \<and> u \<noteq> [] \<longrightarrow> truthy_str (url sub))
   \<and> (\<forall>sub \<in> set subs. Print (''\<newline>Name: '' @ name sub) \<in> set (report rt subs))"
proof -
  have item: "write_folder [] item =
                 (if fst item \<noteq> ''Uncategorized'' then folder_open (fst item) else []) @
                 concat (map leaf_outline (filter (\<lambda>sub. truthy_str (url sub)) (snd item))) @
                 (if fst item \<noteq> ''Uncategorized'' then folder_close else [])" for item
    by (simp add: write_folder_item foldl_write_sub)
  have doc: "opml_document rt subs =
       opml_head rt @
       concat (map (\<lambda>item.
                 (if fst item \<noteq> ''Uncategorized'' then folder_open (fst item) else []) @
                 concat (map leaf_outline (filter (\<lambda>sub. truthy_str (url sub)) (snd item))) @
                 (if fst item \<noteq> ''Uncategorized'' then folder_close else []))
               (group_by_folder subs)) @
       opml_tail"
    unfolding opml_document_char by (simp only: item [abs_def])
  have leaves: "mset (concat (map (\<lambda>item. filter (\<lambda>sub. truthy_str (url sub)) (snd item))
                        (group_by_folder subs)))
       = filter_mset (\<lambda>sub. truthy_str (url sub)) (mset subs)"
    by (rule group_by_folder_mset)
  have a: "\<forall>sub. url sub = None \<or> url sub = Some [] \<longrightarrow> \<not> truthy_str (url sub)"
    by auto
  have b: "\<forall>sub u. url sub = Some u \<and> u \<noteq> [] \<longrightarrow> truthy_str (url sub)"
    by auto
  have c: "\<forall>sub \<in> set subs. Print (''\<newline>Name: '' @ name sub) \<in> set (report rt subs)"
    using report_names by blast
  from doc leaves a b c show ?thesis by blast
qed

text \<open>
  In the example the feed \<^verbatim>\<open>a2\<close> has no URL: the report names it, the document does not.
\<close>

theorem opml_leaf_per_subscription_with_url_witness:
  \<open>feed ''a2'' None (Some ''A'') \<in> set spec_example
   \<and> url (feed ''a2'' None (Some ''A'')) = None
   \<and> Print (''\<newline>Name: a2'') \<in> set (report (example_runtime (Inl [])) spec_example)
   \<and> opml_document (example_runtime (Inl [])) spec_example =
       ''<?xml version="1.0" encoding="UTF-8"?>\<newline>'' @
       ''<opml version="2.0">\<newline>'' @
       ''  <head>\<newline>'' @
       ''    <title>Omnivore RSS Subscriptions Export - 2024-01-01</title>\<newline>'' @
       ''  </head>\<newline>'' @
       ''  <body>\<newline>'' @
       ''    <outline text="A" title="A">\<newline>'' @
       ''      <outline type="rss" text="a1" title="a1" xmlUrl="u1"/>\<newline>'' @
       ''    </outline>\<newline>'' @
       ''      <outline type="rss" text="x" title="x" xmlUrl="u2"/>\<newline>'' @
       ''    <outline text="B" title="B">\<newline>'' @
       ''      <outline type="rss" text="b" title="b" xmlUrl="u4"/>\<newline>'' @
       ''    </outline>\<newline>'' @
       ''  </body>\<newline>'' @
       ''</opml>''\<close>
proof -
  note inst = opml_leaf_per_subscription_with_url [of "example_runtime (Inl [])" spec_example]
  have a: "feed ''a2'' None (Some ''A'') \<in> set spec_example"
    by (simp add: spec_example_def)
  have b: "url (feed ''a2'' None (Some ''A'')) = None"
          "name (feed ''a2'' None (Some ''A'')) = ''a2''"
    by (simp_all add: feed_def Subscription_def)
  from inst a have "Print (''\<newline>Name: '' @ name (feed ''a2'' None (Some ''A'')))
                    \<in> set (report (example_runtime (Inl [])) spec_example)"
    by blast
  then have c: "Print (''\<newline>Name: a2'') \<in> set (report (example_runtime (Inl [])) spec_example)"
    by (simp add: b)
  from a b c spec_example_document show ?thesis
    by simp
qed

section \<open>The fetcher\<close>

lemma bind_err_Inr: "bind_err m f = Inr y \<longleftrightarrow> (\<exists>x. m = Inr x \<and> f x = Inr y)"
  by (cases m) (simp_all add: bind_err_def)

lemma bind_err_simps: "bind_err (Inl e) f = Inl e" "bind_err (Inr x) f = f x"
  by (simp_all add: bind_err_def)






lemma read_body_Inr:
  "read_body rt data = Inr subs \<Longrightarrow>
   py_in ''errors'' data = Inr False \<and>
   (\<exists>d result list items.
      py_getitem data ''data'' = Inr d \<and> py_getitem d ''subscriptions'' = Inr result \<and>
      py_in ''errorCodes'' result = Inr False \<and>
      py_getitem result ''subscriptions'' = Inr list \<and> py_iter list = Inr items \<and>
      map_subscriptions rt items = Inr subs)"
  unfolding read_body_def bind_err_Inr
  by (auto split: if_splits simp: bind_err_Inr)



lemma get_subscriptions_other_status:
  assumes "post rt (base_url cl) (headers cl) query = Inr r"
          "\<not> (400 \<le> status_code r \<and> status_code r < 600)"
  shows "snd (get_subscriptions rt cl) =
           (case json_result r of None \<Rightarrow> Inl JSONDecodeError | Some data \<Rightarrow> read_body rt data)"
proof -
  have h: "handle_response rt r =
           (case json_result r of None \<Rightarrow> Inl JSONDecodeError | Some data \<Rightarrow> read_body rt data)"
    using assms(2) by (auto simp: handle_response_def raise_for_status_def bind_err_simps)
  show ?thesis
    unfolding h [symmetric]
    by (cases "handle_response rt r") (simp_all add: get_subscriptions_def assms(1))
qed


text \<open>The two error fields of the body.\<close>

lemma map_of_Some_key: "map_of kvs k = Some v \<Longrightarrow> k \<in> fst ` set kvs"
  by (force dest: map_of_SomeD)

lemma read_body_errors:
  "map_of kvs ''errors'' = Some errs \<Longrightarrow>
   read_body rt (JObj kvs) = Inl (Exception (''GraphQL errors: '' @ dumps rt errs))"
proof -
  assume e: "map_of kvs ''errors'' = Some errs"
  then have "''errors'' \<in> fst ` set kvs"
    by (rule map_of_Some_key)
  with e show ?thesis
    by (simp add: read_body_def bind_err_simps)
qed

lemma read_body_error_codes:
  assumes "map_of kvs ''errors'' = None" "map_of kvs ''data'' = Some d"
          "py_getitem d ''subscriptions'' = Inr (JObj result)"
          "map_of result ''errorCodes'' = Some codes"
  shows "read_body rt (JObj kvs) = Inl (Exception (''Subscription error: '' @ str_json rt codes))"
proof -
  have "''errors'' \<notin> fst ` set kvs"
    using assms(1) by (simp add: map_of_eq_None_iff)
  moreover have "''errorCodes'' \<in> fst ` set result"
    using assms(4) by (rule map_of_Some_key)
  ultimately show ?thesis
    using assms by (simp add: read_body_def bind_err_simps)
qed

text \<open>The examples, evaluated.\<close>

lemma show_int_examples: "show_int 200 = ''200''" "show_int 300 = ''300''" "show_int 404 = ''404''"
  by (simp_all add: show_int_def digit_def)

lemma example_runtime_fields:
  "post (example_runtime answer) u h q = answer"
  \<open>dumps (example_runtime answer) (JArr [JStr s]) = ''[\<newline>  "'' @ s @ ''"\<newline>]''\<close>
  "str_json (example_runtime answer) (JArr [JStr s]) = ''['' @ [CHR 0x27] @ s @ [CHR 0x27] @ '']''"
  "str_exc (example_runtime answer) e = ''<exception>''"
  by (simp_all add: example_runtime_def)

lemma tech_news_item_mapped:
  "to_subscription (example_runtime answer) tech_news_item = Inr tech_news"
  by (simp add: to_subscription_def parse_timestamp_def get_name_def get_str_def get_int_def
        get_bool_def bind_err_simps tech_news_item_def tech_news_def feed_def Subscription_def
        example_runtime_def replace_Z_def)

lemma success_body_read:
  "read_body (example_runtime answer) success_body = Inr [tech_news]"
  by (simp add: read_body_def success_body_def bind_err_simps tech_news_item_mapped)

lemma fetch_200:
  "get_subscriptions (example_runtime (Inr (respond 200 success_body))) example_client =
     ([Post ''https://api.example.com/api/graphql''
            [(''Authorization'', ''secret''), (''Content-Type'', ''application/json'')] query,
       Print ''Status Code: 200''],
      Inr [tech_news])"
  by (simp add: get_subscriptions_def handle_response_def raise_for_status_def debug_prints_def
        bind_err_simps success_body_read respond_def example_client_def OmnivoreClient_def
        show_int_examples example_runtime_fields)

lemma example_post:
  "post (example_runtime (Inr r)) (base_url example_client) (headers example_client) query = Inr r"
  by (simp add: example_runtime_fields)

lemma example_status: "\<not> (400 \<le> status_code (respond 200 body) \<and> status_code (respond 200 body) < 600)"
  "json_result (respond 200 body) = Some body"
  by (simp_all add: respond_def)




text \<open>
  Claim C6. After the status check has passed and the body has been parsed, the checks
  run in a fixed order. A top-level \<^verbatim>\<open>errors\<close> field ends the fetch with the GraphQL
  exception whose message is the dumped value of that field, whatever else the body
  holds. Without it, an \<^verbatim>\<open>errorCodes\<close> field in the subscriptions result ends the fetch
  with the exception that shows those codes. A list of subscriptions is returned only
  when neither field is there, and it is the mapped items of the result.
\<close>

theorem response_checks_in_order:
  "post rt (base_url cl) (headers cl) query = Inr r \<Longrightarrow>
   \<not> (400 \<le> status_code r \<and> status_code r < 600) \<Longrightarrow>
   json_result r = Some data \<Longrightarrow>
   (\<forall>kvs errs. data = JObj kvs \<and> map_of kvs ''errors'' = Some errs \<longrightarrow>
      snd (get_subscriptions rt cl) = Inl (Exception (''GraphQL errors: '' @ dumps rt errs)))
   \<and> (\<forall>kvs d result codes.
        data = JObj kvs \<and> map_of kvs ''errors'' = None \<and> map_of kvs ''data'' = Some d \<and>
        py_getitem d ''subscriptions'' = Inr (JObj result) \<and>
        map_of result ''errorCodes'' = Some codes \<longrightarrow>
      snd (get_subscriptions rt cl) =
        Inl (Exception (''Subscription error: '' @ str_json rt codes)))
   \<and> (\<forall>subs. snd (get_subscriptions rt cl) = Inr subs \<longrightarrow>
        py_in ''errors'' data = Inr False \<and>
        (\<exists>d result list items.
           py_getitem data ''data'' = Inr d \<and> py_getitem d ''subscriptions'' = Inr result \<and>
           py_in ''errorCodes'' result = Inr False \<and>
           py_getitem result ''subscriptions'' = Inr list \<and> py_iter list = Inr items \<and>
           map_subscriptions rt items = Inr subs))"
proof -
  assume p: "post rt (base_url cl) (headers cl) query = Inr r"
     and s: "\<not> (400 \<le> status_code r \<and> status_code r < 600)"
     and j: "json_result r = Some data"
  have res: "snd (get_subscriptions rt cl) = read_body rt data"
    using get_subscriptions_other_status [OF p s] j by simp
  show ?thesis
    unfolding res
    using read_body_errors read_body_error_codes read_body_Inr by blast
qed

text \<open>
  A body with both fields gives the GraphQL exception, a body with \<^verbatim>\<open>errorCodes\<close> alone
  the other one, and the body of the scenario gives its record.
\<close>

theorem response_checks_in_order_witness:
  \<open>snd (get_subscriptions (example_runtime (Inr (respond 200 errors_and_codes_body))) example_client)
     = Inl (Exception (''GraphQL errors: [\<newline>  "boom"\<newline>]''))
   \<and> snd (get_subscriptions (example_runtime (Inr (respond 200 error_codes_body))) example_client)
     = Inl (Exception (''Subscription error: ['' @ [CHR 0x27] @ ''UNAUTHORIZED'' @ [CHR 0x27] @ '']''))
   \<and> snd (get_subscriptions (example_runtime (Inr (respond 200 success_body))) example_client)
     = Inr [tech_news]
   \<and> py_in ''errors'' success_body = Inr False\<close>
proof -
  have a: \<open>snd (get_subscriptions (example_runtime (Inr (respond 200 errors_and_codes_body))) example_client)
     = Inl (Exception (''GraphQL errors: [\<newline>  "boom"\<newline>]''))\<close>
    using response_checks_in_order [OF example_post example_status, of errors_and_codes_body,
            THEN conjunct1, rule_format,
            of "[(''errors'', JArr [JStr ''boom'']),
                 (''data'', JObj [(''subscriptions'', JObj [(''errorCodes'', JArr [JStr ''UNAUTHORIZED''])])])]"
               "JArr [JStr ''boom'']"]
    by (simp add: errors_and_codes_body_def example_runtime_fields)
  have b: "snd (get_subscriptions (example_runtime (Inr (respond 200 error_codes_body))) example_client)
     = Inl (Exception (''Subscription error: ['' @ [CHR 0x27] @ ''UNAUTHORIZED'' @ [CHR 0x27] @ '']''))"
    using response_checks_in_order [OF example_post example_status, of error_codes_body,
            THEN conjunct2, THEN conjunct1, rule_format,
            of "[(''data'', JObj [(''subscriptions'', JObj [(''errorCodes'', JArr [JStr ''UNAUTHORIZED''])])])]"
               "JObj [(''subscriptions'', JObj [(''errorCodes'', JArr [JStr ''UNAUTHORIZED''])])]"
               "[(''errorCodes'', JArr [JStr ''UNAUTHORIZED''])]"
               "JArr [JStr ''UNAUTHORIZED'']"]
    by (simp add: error_codes_body_def example_runtime_fields)
  have c: "snd (get_subscriptions (example_runtime (Inr (respond 200 success_body))) example_client)
     = Inr [tech_news]"
    by (simp add: fetch_200)
  from response_checks_in_order [OF example_post example_status, of success_body,
            THEN conjunct2, THEN conjunct2, rule_format, OF c]
  have d: "py_in ''errors'' success_body = Inr False"
    by blast
  from a b c d show ?thesis by simp
qed



section \<open>The configuration step\<close>

lemma not_truthy_str: "(\<not> truthy_str x) = (x = None \<or> x = Some [])"
  by (cases x) auto

lemma missing_vars_char:
  "missing_vars env =
     filter (\<lambda>v. env v = None \<or> env v = Some [])
       [''OMNIVORE_API_TOKEN'', ''OMNIVORE_HOST'', ''OMNIVORE_GRAPH_QL_PATH'']"
  by (simp add: missing_vars_def not_truthy_str)

lemma join_sublist: "x \<in> set xs \<Longrightarrow> sublist x (join sep xs)"
proof (induction sep xs rule: join.induct)
  case (1 sep)
  then show ?case by simp
next
  case (2 sep y)
  then show ?case by simp
next
  case (3 sep y z zs)
  show ?case
  proof (cases "x = y")
    case True
    then show ?thesis by (simp add: sublist_append_rightI)
  next
    case False
    with 3 have "sublist x (join sep (z # zs))" by simp
    moreover have "sublist (join sep (z # zs)) ((y @ sep) @ join sep (z # zs))"
      by (rule sublist_append_leftI)
    ultimately have "sublist x ((y @ sep) @ join sep (z # zs))"
      by (rule sublist_order.order_trans)
    then show ?thesis by simp
  qed
qed

lemma get_subscriptions_first:
  "\<exists>rest. fst (get_subscriptions rt cl) = Post (base_url cl) (headers cl) query # rest"
  by (auto simp: get_subscriptions_def split: sum.splits)

lemma run_first:
  "\<exists>rest. fst (run rt cl flag) =
     Print ''Fetching subscriptions...'' # Post (base_url cl) (headers cl) query # rest"
proof -
  obtain rest where r: "fst (get_subscriptions rt cl) = Post (base_url cl) (headers cl) query # rest"
    using get_subscriptions_first by blast
  obtain ev res where g: "get_subscriptions rt cl = (ev, res)"
    by (cases "get_subscriptions rt cl")
  with r have ev: "ev = Post (base_url cl) (headers cl) query # rest" by simp
  show ?thesis
    unfolding run_def g ev
    by (cases res; cases "filter_subscriptions flag (projr res)") (simp_all add: Let_def)
qed

lemma main_first:
  assumes "env ''OMNIVORE_API_TOKEN'' = Some tok" "tok \<noteq> []"
          "env ''OMNIVORE_HOST'' = Some host" "host \<noteq> []"
          "env ''OMNIVORE_GRAPH_QL_PATH'' = Some path" "path \<noteq> []"
  shows "\<exists>rest. fst (main rt env flag) =
     Print ''Fetching subscriptions...'' #
     Post (''https://'' @ host @ path)
          [(''Authorization'', tok), (''Content-Type'', ''application/json'')] query # rest"
proof -
  have m: "missing_vars env = []"
    using assms by (simp add: missing_vars_def)
  obtain ev res where r: "run rt (OmnivoreClient tok host path) flag = (ev, res)"
    by (cases "run rt (OmnivoreClient tok host path) flag")
  with run_first [of rt "OmnivoreClient tok host path" flag]
  obtain rest where ev: "ev = Print ''Fetching subscriptions...'' #
      Post (''https://'' @ host @ path)
           [(''Authorization'', tok), (''Content-Type'', ''application/json'')] query # rest"
    by (auto simp: OmnivoreClient_def)
  with r m assms show ?thesis
    by (cases res) (simp_all add: main_def)
qed

text \<open>
  Claim C4, as amended. When at least one of the three variables is not set or is the
  empty string, \<^verbatim>\<open>main\<close> raises the \<^verbatim>\<open>ValueError\<close> whose message lists every such variable,
  in the fixed order, and does nothing else: no event, so no network call. When all
  three are set to non-empty strings the run goes on with exactly these values: the
  request goes to \<^verbatim>\<open>https://\<close> followed by the host and the path, with the token as the
  \<^verbatim>\<open>Authorization\<close> header. A value of white space only is a non-empty string.
\<close>

theorem missing_variables_abort:
  "(env ''OMNIVORE_API_TOKEN'' = None \<or> env ''OMNIVORE_API_TOKEN'' = Some [] \<or>
    env ''OMNIVORE_HOST'' = None \<or> env ''OMNIVORE_HOST'' = Some [] \<or>
    env ''OMNIVORE_GRAPH_QL_PATH'' = None \<or> env ''OMNIVORE_GRAPH_QL_PATH'' = Some [] \<longrightarrow>
      main rt env flag =
        ([], Inl (ValueError (''Missing required environment variables: '' @
           join '', '' (filter (\<lambda>v. env v = None \<or> env v = Some [])
              [''OMNIVORE_API_TOKEN'', ''OMNIVORE_HOST'', ''OMNIVORE_GRAPH_QL_PATH'']))))
      \<and> (\<forall>v \<in> set [''OMNIVORE_API_TOKEN'', ''OMNIVORE_HOST'', ''OMNIVORE_GRAPH_QL_PATH''].
            env v = None \<or> env v = Some [] \<longrightarrow>
            sublist v (join '', '' (filter (\<lambda>v. env v = None \<or> env v = Some [])
              [''OMNIVORE_API_TOKEN'', ''OMNIVORE_HOST'', ''OMNIVORE_GRAPH_QL_PATH'']))))
   \<and> (\<forall>tok host path.
        env ''OMNIVORE_API_TOKEN'' = Some tok \<and> tok \<noteq> [] \<and>
        env ''OMNIVORE_HOST'' = Some host \<and> host \<noteq> [] \<and>
        env ''OMNIVORE_GRAPH_QL_PATH'' = Some path \<and> path \<noteq> [] \<longrightarrow>
        (\<exists>rest. fst (main rt env flag) =
           Print ''Fetching subscriptions...'' #
           Post (''https://'' @ host @ path)
                [(''Authorization'', tok), (''Content-Type'', ''application/json'')] query # rest))"
proof -
  let ?vars = "[''OMNIVORE_API_TOKEN'', ''OMNIVORE_HOST'', ''OMNIVORE_GRAPH_QL_PATH'']"
  let ?missing = "filter (\<lambda>v. env v = None \<or> env v = Some []) ?vars"
  have abort: "main rt env flag =
        ([], Inl (ValueError (''Missing required environment variables: '' @ join '', '' ?missing)))"
    if "env ''OMNIVORE_API_TOKEN'' = None \<or> env ''OMNIVORE_API_TOKEN'' = Some [] \<or>
        env ''OMNIVORE_HOST'' = None \<or> env ''OMNIVORE_HOST'' = Some [] \<or>
        env ''OMNIVORE_GRAPH_QL_PATH'' = None \<or> env ''OMNIVORE_GRAPH_QL_PATH'' = Some []"
  proof -
    have "missing_vars env \<noteq> []"
      using that unfolding missing_vars_char by (auto simp: filter_empty_conv)
    then show ?thesis
      unfolding main_def by (simp add: missing_vars_char)
  qed
  have named: "sublist v (join '', '' ?missing)"
    if "v \<in> set ?vars" "env v = None \<or> env v = Some []" for v
  proof -
    from that have "v \<in> set ?missing" unfolding set_filter by blast
    then show ?thesis by (rule join_sublist)
  qed
  from abort named main_first show ?thesis
    by blast
qed

theorem missing_variables_abort_witness:
  "host_missing_env ''OMNIVORE_HOST'' = None
   \<and> main (example_runtime (Inr (respond 200 success_body))) host_missing_env False =
       ([], Inl (ValueError ''Missing required environment variables: OMNIVORE_HOST''))
   \<and> only_path_env ''OMNIVORE_API_TOKEN'' = Some ''''
   \<and> only_path_env ''OMNIVORE_HOST'' = None
   \<and> main (example_runtime (Inr (respond 200 success_body))) only_path_env True =
       ([], Inl (ValueError
          ''Missing required environment variables: OMNIVORE_API_TOKEN, OMNIVORE_HOST''))
   \<and> (\<exists>rest. fst (main (example_runtime (Inr (respond 200 success_body))) full_env False) =
         Print ''Fetching subscriptions...'' #
         Post ''https://api.example.com/api/graphql''
              [(''Authorization'', ''secret''), (''Content-Type'', ''application/json'')] query #
         rest)"
proof -
  have a: "host_missing_env ''OMNIVORE_HOST'' = None"
    by (simp add: host_missing_env_def)
  have b: "only_path_env ''OMNIVORE_API_TOKEN'' = Some ''''" "only_path_env ''OMNIVORE_HOST'' = None"
    by (simp_all add: only_path_env_def)
  from a missing_variables_abort
         [of host_missing_env "example_runtime (Inr (respond 200 success_body))" False]
  have c: "main (example_runtime (Inr (respond 200 success_body))) host_missing_env False =
       ([], Inl (ValueError ''Missing required environment variables: OMNIVORE_HOST''))"
    by (simp add: host_missing_env_def)
  from b missing_variables_abort
         [of only_path_env "example_runtime (Inr (respond 200 success_body))" True]
  have d: "main (example_runtime (Inr (respond 200 success_body))) only_path_env True =
       ([], Inl (ValueError
          ''Missing required environment variables: OMNIVORE_API_TOKEN, OMNIVORE_HOST''))"
    by (simp add: only_path_env_def)
  have e: "full_env ''OMNIVORE_API_TOKEN'' = Some ''secret'' \<and> ''secret'' \<noteq> [] \<and>
           full_env ''OMNIVORE_HOST'' = Some ''api.example.com'' \<and> ''api.example.com'' \<noteq> [] \<and>
           full_env ''OMNIVORE_GRAPH_QL_PATH'' = Some ''/api/graphql'' \<and> ''/api/graphql'' \<noteq> []"
    by (simp add: full_env_def)
  from missing_variables_abort
         [of full_env "example_runtime (Inr (respond 200 success_body))" False,
          THEN conjunct2, rule_format, OF e]
  have f: "\<exists>rest. fst (main (example_runtime (Inr (respond 200 success_body))) full_env False) =
         Print ''Fetching subscriptions...'' #
         Post ''https://api.example.com/api/graphql''
              [(''Authorization'', ''secret''), (''Content-Type'', ''application/json'')] query #
         rest"
    by simp
  from a b c d f show ?thesis by simp
qed

text \<open>
  Claim C4 as it is stated counts a blank value as missing. With the host set to one
  space the configuration step passes and the request is sent.
\<close>

theorem blank_host_reaches_network_counterexample:
  "blank_host_env ''OMNIVORE_HOST'' = Some '' ''
   \<and> main (example_runtime (Inl ''unreachable'')) blank_host_env False =
       ([Print ''Fetching subscriptions...'',
         Post ''https:// /api/graphql''
              [(''Authorization'', ''secret''), (''Content-Type'', ''application/json'')] query,
         Print ''Request failed: <exception>'',
         Print ''Error: <exception>''],
        Inl (RequestFault ''unreachable''))"
  by (simp add: main_def missing_vars_def run_def get_subscriptions_def blank_host_env_def
        OmnivoreClient_def example_runtime_fields)

section \<open>The two runs of the specification's scenario\<close>

text \<open>
  The whole of \<^verbatim>\<open>main\<close> on the response that carries \<^verbatim>\<open>Tech News\<close>, fetched five seconds
  after its creation. With \<^verbatim>\<open>--exclude-unfetched\<close> the feed is dropped and the body of the
  document is empty; without the flag the document holds the folder \<^verbatim>\<open>News\<close> with its feed.
\<close>

lemma show_nat_small: "show_nat 0 = ''0''" "show_nat 1 = ''1''"
  by (simp_all add: digit_def)

lemma example_runtime_clock:
  "strftime (example_runtime answer) d fmt =
     (if fmt = ''%Y%m%d'' then ''20240101'' else ''2024-01-01'')"
  by (simp add: example_runtime_def)

lemma scenario_excluded:
  \<open>main (example_runtime (Inr (respond 200 success_body))) full_env True =
     ([Print ''Fetching subscriptions...'',
       Post ''https://api.example.com/api/graphql''
            [(''Authorization'', ''secret''), (''Content-Type'', ''application/json'')] query,
       Print ''Status Code: 200'',
       Print ''\<newline>Filtered out 1 never-fetched subscriptions'',
       Print ''\<newline>Found 0 RSS subscriptions:'',
       WriteFile ''omnivore_rss_export_20240101.opml''
         (''<?xml version="1.0" encoding="UTF-8"?>\<newline>'' @
          ''<opml version="2.0">\<newline>'' @
          ''  <head>\<newline>'' @
          ''    <title>Omnivore RSS Subscriptions Export - 2024-01-01</title>\<newline>'' @
          ''  </head>\<newline>'' @
          ''  <body>\<newline>'' @
          ''  </body>\<newline>'' @
          ''</opml>''),
       Print ''\<newline>Exported subscriptions to omnivore_rss_export_20240101.opml''],
      Inr ())\<close>
proof -
  have cl: "OmnivoreClient ''secret'' ''api.example.com'' ''/api/graphql'' = example_client"
    by (simp add: example_client_def)
  have f: "filter_subscriptions True [tech_news] = Inr []"
    by (simp add: filter_subscriptions_def never_fetched_def bind_err_simps tech_news_def
          feed_def Subscription_def)
  have m: "missing_vars full_env = []"
    by (simp add: missing_vars_def full_env_def)
  have e: "the (full_env ''OMNIVORE_API_TOKEN'') = ''secret''"
          "the (full_env ''OMNIVORE_HOST'') = ''api.example.com''"
          "the (full_env ''OMNIVORE_GRAPH_QL_PATH'') = ''/api/graphql''"
    by (simp_all add: full_env_def)
  show ?thesis
    unfolding main_def m e cl run_def fetch_200
    by (simp add: f filter_prints_def report_def export_to_opml_def opml_document_def
          group_by_folder_def opml_head_def opml_tail_def show_nat_small digit_def Let_def example_runtime_clock)
qed

lemma scenario_kept:
  \<open>main (example_runtime (Inr (respond 200 success_body))) full_env False =
     ([Print ''Fetching subscriptions...'',
       Post ''https://api.example.com/api/graphql''
            [(''Authorization'', ''secret''), (''Content-Type'', ''application/json'')] query,
       Print ''Status Code: 200'',
       Print ''\<newline>Found 1 RSS subscriptions:'',
       Print ''\<newline>Name: Tech News'',
       Print ''URL: https://example.com/feed'',
       Print ''Folder: News'',
       Print ''Created at: 2024-01-01'',
       Print ''Last fetched at: 2024-01-01'',
       WriteFile ''omnivore_rss_export_20240101.opml''
         (''<?xml version="1.0" encoding="UTF-8"?>\<newline>'' @
          ''<opml version="2.0">\<newline>'' @
          ''  <head>\<newline>'' @
          ''    <title>Omnivore RSS Subscriptions Export - 2024-01-01</title>\<newline>'' @
          ''  </head>\<newline>'' @
          ''  <body>\<newline>'' @
          ''    <outline text="News" title="News">\<newline>'' @
          ''      <outline type="rss" text="Tech News" title="Tech News" xmlUrl="https://example.com/feed"/>\<newline>'' @
          ''    </outline>\<newline>'' @
          ''  </body>\<newline>'' @
          ''</opml>''),
       Print ''\<newline>Exported subscriptions to omnivore_rss_export_20240101.opml''],
      Inr ())\<close>
proof -
  have cl: "OmnivoreClient ''secret'' ''api.example.com'' ''/api/graphql'' = example_client"
    by (simp add: example_client_def)
  have m: "missing_vars full_env = []"
    by (simp add: missing_vars_def full_env_def)
  have e: "the (full_env ''OMNIVORE_API_TOKEN'') = ''secret''"
          "the (full_env ''OMNIVORE_HOST'') = ''api.example.com''"
          "the (full_env ''OMNIVORE_GRAPH_QL_PATH'') = ''/api/graphql''"
    by (simp_all add: full_env_def)
  have g: "group_by_folder [tech_news] = [(''News'', [tech_news])]"
    by (simp add: group_by_folder_def add_to_folder_def Let_def folder_of_def tech_news_def
          feed_def Subscription_def)
  have r: "report_sub (example_runtime (Inr (respond 200 success_body))) tech_news =
      [Print ''\<newline>Name: Tech News'', Print ''URL: https://example.com/feed'',
       Print ''Folder: News'', Print ''Created at: 2024-01-01'',
       Print ''Last fetched at: 2024-01-01'']"
    by (simp add: report_sub_def print_str_def print_date_def print_bool_def tech_news_def
          feed_def Subscription_def example_runtime_def)
  have w: "write_folder opml (''News'', [tech_news]) =
             opml @ folder_open ''News'' @ leaf_outline tech_news @ folder_close" for opml
    by (simp add: write_folder_def write_sub_def tech_news_def feed_def Subscription_def)
  have l: \<open>leaf_outline tech_news =
     ''      <outline type="rss" text="Tech News" title="Tech News" xmlUrl="https://example.com/feed"/>\<newline>''\<close>
    by (simp add: leaf_outline_def tech_news_def feed_def Subscription_def)
  show ?thesis
    unfolding main_def m e cl run_def fetch_200
    by (simp add: filter_subscriptions_def filter_prints_def report_def r export_to_opml_def
          opml_document_def g w l folder_open_def folder_close_def opml_head_def opml_tail_def
          show_nat_small digit_def Let_def example_runtime_clock)
qed

end
